theory Spec2Isabelle
  imports Main
begin

section \<open>Python values, exceptions and string templates\<close>

text \<open>
  The expert classes of \<^verbatim>\<open>backend/app/experts\<close> are ordinary Python objects whose
  methods read and assign attributes and render \<^verbatim>\<open>string.Template\<close> resources.
  The values that flow through them are strings, integers and \<^verbatim>\<open>None\<close>.
\<close>

datatype pyval = PyNone | PyStr string | PyInt int

text \<open>
  The exceptions the modelled code can raise are Python's built-in ones. An unset
  attribute raises \<^verbatim>\<open>AttributeError\<close> (the argument is the attribute's name), a missing
  dictionary key or template placeholder raises \<^verbatim>\<open>KeyError\<close> (the argument is the key),
  and an ill-formed placeholder or an unsupported provider raises \<^verbatim>\<open>ValueError\<close>
  (the argument is the message).
\<close>

datatype py_error = AttributeError string | KeyError string | ValueError string

fun exc_class :: "py_error \<Rightarrow> string" where
  "exc_class (AttributeError a) = ''AttributeError''"
| "exc_class (KeyError k) = ''KeyError''"
| "exc_class (ValueError m) = ''ValueError''"

text \<open>Sequencing of computations that may raise: the first exception aborts the rest.\<close>

definition err_bind :: "'e + 'a \<Rightarrow> ('a \<Rightarrow> 'e + 'b) \<Rightarrow> 'e + 'b" where
  "err_bind r f = (case r of Inl e \<Rightarrow> Inl e | Inr v \<Rightarrow> f v)"

subsection \<open>\<^verbatim>\<open>str()\<close>, truthiness and \<^verbatim>\<open>or\<close>\<close>

definition digit_char :: "nat \<Rightarrow> char" where
  "digit_char d = ''0123456789'' ! d"

function str_nat :: "nat \<Rightarrow> string" where
  "str_nat n = (if n < 10 then [digit_char n] else str_nat (n div 10) @ [digit_char (n mod 10)])"
  by pat_completeness auto
termination
  by (relation "measure id") auto

definition str_int :: "int \<Rightarrow> string" where
  "str_int i = (if i < 0 then CHR ''-'' # str_nat (nat (- i)) else str_nat (nat i))"

fun py_str :: "pyval \<Rightarrow> string" where
  "py_str PyNone = ''None''"
| "py_str (PyStr s) = s"
| "py_str (PyInt i) = str_int i"

fun truthy :: "pyval \<Rightarrow> bool" where
  "truthy PyNone = False"
| "truthy (PyStr s) = (s \<noteq> [])"
| "truthy (PyInt i) = (i \<noteq> 0)"

definition py_or :: "pyval \<Rightarrow> pyval \<Rightarrow> pyval" where
  "py_or a b = (if truthy a then a else b)"

subsection \<open>Dictionaries\<close>

text \<open>
  A \<^verbatim>\<open>dict[str, str]\<close> is a finite map. \<^verbatim>\<open>d.get(k)\<close> yields \<^verbatim>\<open>None\<close> for a missing
  key, \<^verbatim>\<open>d[k]\<close> raises \<^verbatim>\<open>KeyError(k)\<close>.
\<close>

definition dict_get :: "(string \<rightharpoonup> string) \<Rightarrow> string \<Rightarrow> pyval" where
  "dict_get d k = (case d k of None \<Rightarrow> PyNone | Some v \<Rightarrow> PyStr v)"

definition getitem :: "(string \<rightharpoonup> 'v) \<Rightarrow> string \<Rightarrow> py_error + 'v" where
  "getitem d k = (case d k of None \<Rightarrow> Inl (KeyError k) | Some v \<Rightarrow> Inr v)"

text \<open>Reading an instance attribute that no assignment has created yet.\<close>

definition getattr :: "'v option \<Rightarrow> string \<Rightarrow> py_error + 'v" where
  "getattr slot attr = (case slot of None \<Rightarrow> Inl (AttributeError attr) | Some v \<Rightarrow> Inr v)"

subsection \<open>\<^verbatim>\<open>string.Template.substitute\<close>\<close>

text \<open>
  \<^verbatim>\<open>Template(s).substitute(**kws)\<close> scans \<^verbatim>\<open>s\<close> from left to right. At each
  \<^verbatim>\<open>$\<close> it reads \<^verbatim>\<open>$$\<close> (an escaped dollar), \<^verbatim>\<open>$identifier\<close> or
  \<^verbatim>\<open>${identifier}\<close>, where an identifier is \<^verbatim>\<open>[_a-zA-Z][_a-zA-Z0-9]*\<close>, taken as long
  as possible. A placeholder is replaced by \<^verbatim>\<open>str(kws[identifier])\<close>, a missing keyword
  raises \<^verbatim>\<open>KeyError\<close>, and any other \<^verbatim>\<open>$\<close> raises \<^verbatim>\<open>ValueError\<close>. The first
  placeholder that fails decides the exception. The line and column that Python appends
  to the \<^verbatim>\<open>ValueError\<close> message are left out.
\<close>

datatype template = Template string

type_synonym kwargs = "(string \<times> pyval) list"

definition is_id_start :: "char \<Rightarrow> bool" where
  "is_id_start c =
     (let n = (of_char c :: nat)
      in n = 95 \<or> (97 \<le> n \<and> n \<le> 122) \<or> (65 \<le> n \<and> n \<le> 90))"

definition is_id_char :: "char \<Rightarrow> bool" where
  "is_id_char c = (let n = (of_char c :: nat) in is_id_start c \<or> (48 \<le> n \<and> n \<le> 57))"

definition convert_named :: "kwargs \<Rightarrow> string \<Rightarrow> py_error + string" where
  "convert_named kws named =
     (case map_of kws named of None \<Rightarrow> Inl (KeyError named) | Some v \<Rightarrow> Inr (py_str v))"

definition invalid_placeholder :: py_error where
  "invalid_placeholder = ValueError ''Invalid placeholder in string''"

function sub :: "kwargs \<Rightarrow> string \<Rightarrow> py_error + string" where
  "sub kws [] = Inr []"
| "sub kws (c # cs) =
     (if c \<noteq> CHR ''$'' then err_bind (sub kws cs) (\<lambda>r. Inr (c # r))
      else (case cs of
          [] \<Rightarrow> Inl invalid_placeholder
        | d # ds \<Rightarrow>
            if d = CHR ''$'' then err_bind (sub kws ds) (\<lambda>r. Inr (CHR ''$'' # r))
            else if is_id_start d then
              err_bind (convert_named kws (takeWhile is_id_char cs)) (\<lambda>v.
              err_bind (sub kws (dropWhile is_id_char cs)) (\<lambda>r. Inr (v @ r)))
            else if d = CHR ''{'' \<and> ds \<noteq> [] \<and> is_id_start (hd ds)
                  \<and> take 1 (dropWhile is_id_char ds) = ''}'' then
              err_bind (convert_named kws (takeWhile is_id_char ds)) (\<lambda>v.
              err_bind (sub kws (drop 1 (dropWhile is_id_char ds))) (\<lambda>r. Inr (v @ r)))
            else Inl invalid_placeholder))"
  by pat_completeness auto
termination
  by (relation "measure (\<lambda>(kws, s). length s)")
     (auto simp: less_Suc_eq_le
        intro: le_trans [OF length_dropWhile_le]
          le_trans [OF diff_le_self le_trans [OF length_dropWhile_le le_SucI [OF le_refl]]])

fun substitute :: "template \<Rightarrow> kwargs \<Rightarrow> py_error + string" where
  "substitute (Template s) kws = sub kws s"

section \<open>The prompt resources of \<^verbatim>\<open>backend/app/prompts/debater_prompt.py\<close>\<close>

text \<open>
  A prompt module is a bundle of named resources. The experts reach it through their
  \<^verbatim>\<open>_protocol\<close> attribute.
\<close>

record protocol =
  system :: template
  thinking_advice :: "string \<rightharpoonup> string"
  new_argument :: "string \<rightharpoonup> template"
  user_question :: template
  assistant_response :: template
  user_request :: template

definition debater_system :: template where
  \<open>debater_system = Template (
    ''You will act as an expert debater named $name engaging in a debate over answers to reading comprehension questions. You will be shown a question and two possible answers, followed by a story. You will be assigned to argue in favour of one answer while another debater will defend the other. A judge, unable to see the story, will decide the winner. Your goal is to persuade the judge that your answer is correct.\<newline>'' @
    ''You should maintain a scholarly yet assertive tone focused on evidence-based analysis while critically evaluating counterarguments. Do not exceed $word_limit words per argument. A good rule of thumb is that a short paragraph and one quote take approximately 100 words. Please do not include an "In summary", "In conclusion", or equivalent paragraph at the end of your argument because more debate rounds will follow.\<newline>'' @
    ''Structure your output as follows:\<newline>'' @
    ''<thinking>[THINKING]</thinking>\<newline>'' @
    ''<argument>[ARGUMENT]</argument>\<newline>'' @
    ''The judge only sees the output in <argument> tags, so focus on clarity and persuasiveness in this section.\<newline>'' @
    ''Here is some important information regarding the quote system:\<newline>'' @
    ''- Supplement your points with direct quotes from the story using <quote></quote> tags.\<newline>'' @
    ''- An external fact checker will verify quotes. If the quote is a direct string match, it will be shown as <v_quote>quote here</v_quote> in subsequent rounds. If the quote is inaccurate, it will be shown as <u_quote>quote here</u_quote>.\<newline>'' @
    ''- There is no advantage to repeating quotes; always introduce more to support your argument.\<newline>'' @
    ''- The absence of direct quotes in your opponent's argument should be explicitly stated when relevant.\<newline>'' @
    ''Judging Criteria:\<newline>'' @
    ''- Verified quotes are crucial, and how you integrate them into a logical and compelling argument is essential.\<newline>'' @
    ''- Deductions for unverified quotes and repeating arguments.\<newline>'' @
    ''- Points for developing arguments further and introducing new ones.\<newline>'' @
    ''- Points for demonstrating misleading quotes from your opponent and for convincing counterarguments.\<newline>'' @
    ''- Points for including good context about the story in the opening statement.'')\<close>

definition debater_thinking_advice :: "string \<rightharpoonup> string" where
  \<open>debater_thinking_advice = map_of [
    (''first_round_thinking'',
      ''1. Consider what extra context the judge needs to know about the story for your answer to make sense. You should include this context in your argument.\<newline>'' @
      ''2. Thinking step by step, plan an argument for your position.\<newline>'' @
      ''3. Select the best quotes from the story to use in your argument.''),
    (''second_round_thinking'',
      ''1. List out the biggest flaws in your opponent's argument.\<newline>'' @
      ''2. Thinking step by step, critique your opponent's argument.\<newline>'' @
      ''3. Select the best quotes from the story to disprove your opponent's argument.''),
    (''nth_round_thinking'',
      ''1. List the critiques the opponent has made to your argument.\<newline>'' @
      ''2. Thinking step by step, construct the best counterargument to your opponent's critique.\<newline>'' @
      ''3. Select the best quotes from the story to disprove your opponent's critique.'')]\<close>

definition debater_new_argument :: "string \<rightharpoonup> template" where
  \<open>debater_new_argument = map_of [
    (''opening_argument_request'', Template (
      ''Now it's your turn to construct your opening argument for why the answer to the question "$question" is "$answer_defending".'')),
    (''nth_argument_request'', Template (
      ''Now it's your turn to construct your next argument for why the answer to the question "$question" is "$answer_defending".''))]\<close>

definition debater_user_question :: template where
  \<open>debater_user_question = Template (
    ''Here is the question and the two answers:\<newline>'' @
    ''<question>$question</question>\<newline>'' @
    ''<your_answer>$answer_defending</your_answer>\<newline>'' @
    ''<opponent_answer>$answer_opposing</opponent_answer>\<newline>'' @
    ''Please restate your position and the position you are arguing against to confirm you understand.'')\<close>

definition debater_assistant_response :: template where
  \<open>debater_assistant_response = Template (
    ''I understand. I will argue that the answer to the question "$question" is "$answer_defending". I will argue against the answer "$answer_opposing".'')\<close>

definition debater_user_request :: template where
  \<open>debater_user_request = Template (
    ''<story>\<newline>'' @
    ''$story\<newline>'' @
    ''</story>\<newline>'' @
    ''Here's the current transcript of the debate:\<newline>'' @
    ''<transcript>\<newline>'' @
    ''$transcript\<newline>'' @
    ''</transcript>\<newline>'' @
    ''\<newline>'' @
    ''$new_argument_request\<newline>'' @
    ''First, think about your argument in <thinking></thinking> tags by carrying out these steps:\<newline>'' @
    ''$thinking_advice\<newline>'' @
    ''Finally, write your argument in <argument></argument> tags.\<newline>'' @
    ''Do not exceed $word_limit words.\<newline>'' @
    ''Remember to output <thinking> and <argument> stages in your response and <quote> tags around direct quotes.'')\<close>

definition debater :: protocol where
  "debater = \<lparr>system = debater_system, thinking_advice = debater_thinking_advice,
     new_argument = debater_new_argument, user_question = debater_user_question,
     assistant_response = debater_assistant_response, user_request = debater_user_request\<rparr>"

section \<open>The expert objects\<close>

text \<open>
  \<^verbatim>\<open>Consultant\<close>, \<^verbatim>\<open>Debater\<close> and \<^verbatim>\<open>IDebater\<close> instances carry the same
  attributes, so one record holds the instance dictionary. An attribute \<^verbatim>\<open>self._x\<close>
  is the field \<open>self_x\<close>; the public attributes of \<^verbatim>\<open>APIClient\<close> keep their names.
  The attributes that \<^verbatim>\<open>__init__\<close> does not create are optional: \<open>None\<close> means that
  no assignment has created the attribute yet, and reading it raises
  \<^verbatim>\<open>AttributeError\<close>. The network session of \<^verbatim>\<open>APIClient\<close> is an external object
  and is not modelled. \<^verbatim>\<open>_answer_a\<close> and \<^verbatim>\<open>_answer_b\<close> hold the result of
  \<^verbatim>\<open>d.get(..) or d'.get(..)\<close>, which may be \<^verbatim>\<open>None\<close>.
\<close>

record expert =
  api_key :: string
  provider :: string
  model :: string
  self_protocol :: protocol
  self_name :: string
  self_word_limit :: int
  self_system :: string
  self_thinking_advice :: "string \<rightharpoonup> string"
  self_current_round :: int
  self_question :: "string option"
  self_answer_defending :: "string option"
  self_answer_opposing :: "string option"
  self_current_argument :: "string option"
  self_opponent_name :: "string option"
  self_answer_a :: "pyval option"
  self_answer_b :: "pyval option"
  self_answer_defending_letter :: "string option"
  self_answer_opposing_letter :: "string option"

subsection \<open>Construction\<close>

text \<open>\<^verbatim>\<open>APIClient._initialize_client\<close>: only the two known providers yield a session.\<close>

definition initialize_client :: "string \<Rightarrow> py_error + unit" where
  "initialize_client prov =
     (if prov = ''openai'' then Inr ()
      else if prov = ''anthropic'' then Inr ()
      else Inl (ValueError (''Unsupported provider: '' @ prov)))"

text \<open>
  The state that the three \<^verbatim>\<open>__init__\<close> methods build from a prompt module and the
  rendered system message.
\<close>

definition new_expert ::
  "protocol \<Rightarrow> string \<Rightarrow> string \<Rightarrow> string \<Rightarrow> string \<Rightarrow> int \<Rightarrow> string \<Rightarrow> expert" where
  "new_expert prompts key prov mdl nm wl sys =
     \<lparr>api_key = key, provider = prov, model = mdl,
      self_protocol = prompts, self_name = nm, self_word_limit = wl, self_system = sys,
      self_thinking_advice = thinking_advice prompts, self_current_round = 0,
      self_question = None, self_answer_defending = None, self_answer_opposing = None,
      self_current_argument = None, self_opponent_name = None,
      self_answer_a = None, self_answer_b = None,
      self_answer_defending_letter = None, self_answer_opposing_letter = None\<rparr>"

text \<open>
  \<^verbatim>\<open>Debater.__init__\<close> binds the module \<^verbatim>\<open>debater_prompt\<close>. The module
  \<^verbatim>\<open>consultant_prompt\<close> that \<^verbatim>\<open>Consultant.__init__\<close> binds and the module
  \<^verbatim>\<open>interactive_debater_prompt\<close> that \<^verbatim>\<open>IDebater.__init__\<close> binds are not among the
  sources, so both constructors take the module as their first argument.
\<close>

definition Debater_init :: "string \<Rightarrow> string \<Rightarrow> string \<Rightarrow> string \<Rightarrow> int \<Rightarrow> py_error + expert" where
  "Debater_init key prov mdl nm wl =
     err_bind (initialize_client prov) (\<lambda>_.
     err_bind (substitute (system debater) [(''name'', PyStr nm), (''word_limit'', PyInt wl)]) (\<lambda>sys.
     Inr (new_expert debater key prov mdl nm wl sys)))"

definition Consultant_init ::
  "protocol \<Rightarrow> string \<Rightarrow> string \<Rightarrow> string \<Rightarrow> string \<Rightarrow> int \<Rightarrow> py_error + expert" where
  "Consultant_init consultant key prov mdl nm wl =
     err_bind (initialize_client prov) (\<lambda>_.
     err_bind (substitute (system consultant) [(''name'', PyStr nm), (''word_limit'', PyInt wl)]) (\<lambda>sys.
     Inr (new_expert consultant key prov mdl nm wl sys)))"

definition IDebater_init ::
  "protocol \<Rightarrow> string \<Rightarrow> string \<Rightarrow> string \<Rightarrow> string \<Rightarrow> int \<Rightarrow> py_error + expert" where
  "IDebater_init interactive_debater key prov mdl nm wl =
     err_bind (Debater_init key prov mdl nm wl) (\<lambda>self.
     err_bind (substitute (system interactive_debater)
                 [(''name'', PyStr (self_name self)), (''word_limit'', PyInt (self_word_limit self))]) (\<lambda>sys.
     Inr (self\<lparr>self_protocol := interactive_debater, self_system := sys,
                self_thinking_advice := thinking_advice interactive_debater,
                self_current_round := 0\<rparr>)))"

subsection \<open>Methods\<close>

text \<open>
  A method returns the value or the exception of the call together with the object as
  the call leaves it: an exception keeps every assignment made before it was raised.
  Keyword arguments are evaluated from left to right, before the call they belong to.
\<close>

definition Debater_initial_position ::
  "expert \<Rightarrow> string \<Rightarrow> string \<Rightarrow> string \<Rightarrow> (py_error + string) \<times> expert" where
  "Debater_initial_position self question answer_defending answer_opposing =
     (let self = self\<lparr>self_question := Some question\<rparr>;
          self = self\<lparr>self_answer_defending := Some answer_defending\<rparr>;
          self = self\<lparr>self_answer_opposing := Some answer_opposing\<rparr>
      in (err_bind (getattr (self_question self) ''_question'') (\<lambda>q.
          err_bind (getattr (self_answer_defending self) ''_answer_defending'') (\<lambda>d.
          err_bind (getattr (self_answer_opposing self) ''_answer_opposing'') (\<lambda>opp.
          substitute (user_question (self_protocol self))
            [(''question'', PyStr q), (''answer_defending'', PyStr d),
             (''answer_opposing'', PyStr opp)]))),
          self))"

definition Debater_initial_response :: "expert \<Rightarrow> (py_error + string) \<times> expert" where
  "Debater_initial_response self =
     (err_bind (getattr (self_question self) ''_question'') (\<lambda>q.
      err_bind (getattr (self_answer_defending self) ''_answer_defending'') (\<lambda>d.
      err_bind (getattr (self_answer_opposing self) ''_answer_opposing'') (\<lambda>opp.
      substitute (assistant_response (self_protocol self))
        [(''question'', PyStr q), (''answer_defending'', PyStr d),
         (''answer_opposing'', PyStr opp)]))),
      self)"

definition Debater_construct_argument ::
  "expert \<Rightarrow> string \<Rightarrow> string \<Rightarrow> (py_error + string) \<times> expert" where
  "Debater_construct_argument self story transcript =
     (case
        (if self_current_round self = 0 then
           err_bind (getitem (new_argument (self_protocol self)) ''opening_argument_request'') (\<lambda>request.
           err_bind (getattr (self_question self) ''_question'') (\<lambda>q.
           err_bind (getattr (self_answer_defending self) ''_answer_defending'') (\<lambda>d.
           err_bind (substitute request [(''question'', PyStr q), (''answer_defending'', PyStr d)]) (\<lambda>req.
           err_bind (getitem (self_thinking_advice self) ''first_round_thinking'') (\<lambda>advice.
           substitute (user_request (self_protocol self))
             [(''story'', PyStr story), (''transcript'', PyStr transcript),
              (''new_argument_request'', PyStr req), (''thinking_advice'', PyStr advice),
              (''word_limit'', PyInt (self_word_limit self))])))))
         else
           err_bind (getitem (new_argument (self_protocol self)) ''nth_argument_request'') (\<lambda>request.
           err_bind (getattr (self_question self) ''_question'') (\<lambda>q.
           err_bind (getattr (self_answer_defending self) ''_answer_defending'') (\<lambda>d.
           err_bind (substitute request [(''question'', PyStr q), (''answer_defending'', PyStr d)]) (\<lambda>req.
           err_bind (getitem (self_thinking_advice self)
                       (if self_current_round self = 1 then ''second_round_thinking''
                        else ''nth_round_thinking'')) (\<lambda>advice.
           substitute (user_request (self_protocol self))
             [(''story'', PyStr story), (''transcript'', PyStr transcript),
              (''new_argument_request'', PyStr req), (''thinking_advice'', PyStr advice),
              (''word_limit'', PyInt (self_word_limit self))]))))))
      of Inl e \<Rightarrow> (Inl e, self)
       | Inr argument \<Rightarrow>
           (Inr argument,
            self\<lparr>self_current_argument := Some argument,
                 self_current_round := self_current_round self + 1\<rparr>))"

text \<open>The three methods of \<^verbatim>\<open>Consultant\<close>, a class of its own with the same shape.\<close>

definition Consultant_initial_position ::
  "expert \<Rightarrow> string \<Rightarrow> string \<Rightarrow> string \<Rightarrow> (py_error + string) \<times> expert" where
  "Consultant_initial_position self question answer_defending answer_opposing =
     (let self = self\<lparr>self_question := Some question\<rparr>;
          self = self\<lparr>self_answer_defending := Some answer_defending\<rparr>;
          self = self\<lparr>self_answer_opposing := Some answer_opposing\<rparr>
      in (err_bind (getattr (self_question self) ''_question'') (\<lambda>q.
          err_bind (getattr (self_answer_defending self) ''_answer_defending'') (\<lambda>d.
          err_bind (getattr (self_answer_opposing self) ''_answer_opposing'') (\<lambda>opp.
          substitute (user_question (self_protocol self))
            [(''question'', PyStr q), (''answer_defending'', PyStr d),
             (''answer_opposing'', PyStr opp)]))),
          self))"

definition Consultant_initial_response :: "expert \<Rightarrow> (py_error + string) \<times> expert" where
  "Consultant_initial_response self =
     (err_bind (getattr (self_question self) ''_question'') (\<lambda>q.
      err_bind (getattr (self_answer_defending self) ''_answer_defending'') (\<lambda>d.
      err_bind (getattr (self_answer_opposing self) ''_answer_opposing'') (\<lambda>opp.
      substitute (assistant_response (self_protocol self))
        [(''question'', PyStr q), (''answer_defending'', PyStr d),
         (''answer_opposing'', PyStr opp)]))),
      self)"

definition Consultant_construct_argument ::
  "expert \<Rightarrow> string \<Rightarrow> string \<Rightarrow> (py_error + string) \<times> expert" where
  "Consultant_construct_argument self story transcript =
     (case
        (if self_current_round self = 0 then
           err_bind (getitem (new_argument (self_protocol self)) ''opening_argument_request'') (\<lambda>request.
           err_bind (getattr (self_question self) ''_question'') (\<lambda>q.
           err_bind (getattr (self_answer_defending self) ''_answer_defending'') (\<lambda>d.
           err_bind (substitute request [(''question'', PyStr q), (''answer_defending'', PyStr d)]) (\<lambda>req.
           err_bind (getitem (self_thinking_advice self) ''first_round_thinking'') (\<lambda>advice.
           substitute (user_request (self_protocol self))
             [(''story'', PyStr story), (''transcript'', PyStr transcript),
              (''new_argument_request'', PyStr req), (''thinking_advice'', PyStr advice),
              (''word_limit'', PyInt (self_word_limit self))])))))
         else
           err_bind (getitem (new_argument (self_protocol self)) ''nth_argument_request'') (\<lambda>request.
           err_bind (getattr (self_question self) ''_question'') (\<lambda>q.
           err_bind (getattr (self_answer_defending self) ''_answer_defending'') (\<lambda>d.
           err_bind (substitute request [(''question'', PyStr q), (''answer_defending'', PyStr d)]) (\<lambda>req.
           err_bind (getitem (self_thinking_advice self) ''nth_round_thinking'') (\<lambda>advice.
           substitute (user_request (self_protocol self))
             [(''story'', PyStr story), (''transcript'', PyStr transcript),
              (''new_argument_request'', PyStr req), (''thinking_advice'', PyStr advice),
              (''word_limit'', PyInt (self_word_limit self))]))))))
      of Inl e \<Rightarrow> (Inl e, self)
       | Inr argument \<Rightarrow>
           (Inr argument,
            self\<lparr>self_current_argument := Some argument,
                 self_current_round := self_current_round self + 1\<rparr>))"

text \<open>
  \<^verbatim>\<open>IDebater.initial_position\<close> takes the two answers as dictionaries from the answer
  letter to the answer text. Each subscription \<^verbatim>\<open>answer_defending[letter]\<close> may raise
  \<^verbatim>\<open>KeyError\<close> after earlier attributes have been assigned.
\<close>

definition IDebater_initial_position ::
  "expert \<Rightarrow> string \<Rightarrow> (string \<rightharpoonup> string) \<Rightarrow> (string \<rightharpoonup> string) \<Rightarrow> string
     \<Rightarrow> (py_error + string) \<times> expert" where
  "IDebater_initial_position self question answer_defending answer_opposing opponent_name =
     (let self = self\<lparr>self_question := Some question\<rparr>;
          self = self\<lparr>self_opponent_name := Some opponent_name\<rparr>;
          answer_a = py_or (dict_get answer_defending ''A'') (dict_get answer_opposing ''A'');
          self = self\<lparr>self_answer_a := Some answer_a\<rparr>;
          answer_b = py_or (dict_get answer_defending ''B'') (dict_get answer_opposing ''B'');
          self = self\<lparr>self_answer_b := Some answer_b\<rparr>;
          defending_letter = (if answer_a = dict_get answer_defending ''A'' then ''A'' else ''B'');
          self = self\<lparr>self_answer_defending_letter := Some defending_letter\<rparr>
      in case getitem answer_defending defending_letter of
           Inl e \<Rightarrow> (Inl e, self)
         | Inr defending \<Rightarrow>
             let self = self\<lparr>self_answer_defending := Some defending\<rparr>;
                 opposing_letter = (if answer_a = dict_get answer_opposing ''A'' then ''A'' else ''B'');
                 self = self\<lparr>self_answer_opposing_letter := Some opposing_letter\<rparr>
             in case getitem answer_opposing opposing_letter of
                  Inl e \<Rightarrow> (Inl e, self)
                | Inr opposing \<Rightarrow>
                    let self = self\<lparr>self_answer_opposing := Some opposing\<rparr>
                    in (substitute (user_question (self_protocol self))
                          [(''question'', PyStr question), (''answer_a'', answer_a),
                           (''answer_b'', answer_b),
                           (''answer_defending_letter'', PyStr defending_letter),
                           (''answer_opposing_letter'', PyStr opposing_letter),
                           (''opponent_name'', PyStr opponent_name)],
                        self))"

text \<open>
  \<^verbatim>\<open>IDebater\<close> defines neither \<^verbatim>\<open>initial_response\<close> nor \<^verbatim>\<open>construct_argument\<close>: it
  inherits both from \<^verbatim>\<open>Debater\<close>.
\<close>

datatype expert_class = Consultant | Debater | IDebater

fun construct_argument ::
  "expert_class \<Rightarrow> expert \<Rightarrow> string \<Rightarrow> string \<Rightarrow> (py_error + string) \<times> expert" where
  "construct_argument Consultant = Consultant_construct_argument"
| "construct_argument Debater = Debater_construct_argument"
| "construct_argument IDebater = Debater_construct_argument"

fun initial_response :: "expert_class \<Rightarrow> expert \<Rightarrow> (py_error + string) \<times> expert" where
  "initial_response Consultant = Consultant_initial_response"
| "initial_response Debater = Debater_initial_response"
| "initial_response IDebater = Debater_initial_response"

text \<open>A session calls \<^verbatim>\<open>construct_argument\<close> repeatedly, one (story, transcript) pair per call.\<close>

fun run_calls ::
  "expert_class \<Rightarrow> expert \<Rightarrow> (string \<times> string) list \<Rightarrow> (py_error + string) list \<times> expert" where
  "run_calls cls self [] = ([], self)"
| "run_calls cls self (call # calls) =
     (case construct_argument cls self (fst call) (snd call) of
        (r, self') \<Rightarrow> (case run_calls cls self' calls of (rs, self'') \<Rightarrow> (r # rs, self'')))"

section \<open>The round algorithm as the specification words it\<close>

text \<open>
  The specification describes \<^verbatim>\<open>constructArgument\<close> in seven steps: choose the phase key
  and the new-argument-request key from the current round, render the request with the
  question and the defended answer, render the user request with the story, the
  transcript, the request, the advice of the phase and the word limit, store the text,
  add one to the round, and return the text. The two keys are functions of the round.
\<close>

definition request_key_for :: "int \<Rightarrow> string" where
  "request_key_for r = (if r = 0 then ''opening_argument_request'' else ''nth_argument_request'')"

fun phase_key_for :: "expert_class \<Rightarrow> int \<Rightarrow> string" where
  "phase_key_for Consultant r =
     (if r = 0 then ''first_round_thinking'' else ''nth_round_thinking'')"
| "phase_key_for Debater r =
     (if r = 0 then ''first_round_thinking''
      else if r = 1 then ''second_round_thinking'' else ''nth_round_thinking'')"
| "phase_key_for IDebater r =
     (if r = 0 then ''first_round_thinking''
      else if r = 1 then ''second_round_thinking'' else ''nth_round_thinking'')"

definition render_round ::
  "expert \<Rightarrow> string \<Rightarrow> string \<Rightarrow> string \<Rightarrow> string \<Rightarrow> py_error + string" where
  "render_round self request_key phase_key story transcript =
     err_bind (getitem (new_argument (self_protocol self)) request_key) (\<lambda>request.
     err_bind (getattr (self_question self) ''_question'') (\<lambda>q.
     err_bind (getattr (self_answer_defending self) ''_answer_defending'') (\<lambda>d.
     err_bind (substitute request [(''question'', PyStr q), (''answer_defending'', PyStr d)]) (\<lambda>req.
     err_bind (getitem (self_thinking_advice self) phase_key) (\<lambda>advice.
     substitute (user_request (self_protocol self))
       [(''story'', PyStr story), (''transcript'', PyStr transcript),
        (''new_argument_request'', PyStr req), (''thinking_advice'', PyStr advice),
        (''word_limit'', PyInt (self_word_limit self))])))))"

definition advance_round ::
  "expert \<Rightarrow> string \<Rightarrow> string \<Rightarrow> string \<Rightarrow> string \<Rightarrow> (py_error + string) \<times> expert" where
  "advance_round self request_key phase_key story transcript =
     (case render_round self request_key phase_key story transcript of
        Inl e \<Rightarrow> (Inl e, self)
      | Inr text \<Rightarrow>
          (Inr text,
           self\<lparr>self_current_argument := Some text,
                self_current_round := self_current_round self + 1\<rparr>))"

text \<open>A call succeeded when it returned a text.\<close>

fun succeeded :: "py_error + string \<Rightarrow> bool" where
  "succeeded (Inr text) = True"
| "succeeded (Inl e) = False"

section \<open>A concrete expert\<close>

text \<open>
  The fixture of \<^verbatim>\<open>backend/tests/test_experts.py\<close> (\<^verbatim>\<open>BaseExpert\<close>): an expert built
  with the test's constructor arguments whose position attributes are then assigned
  directly, here on a given prompt module and at a given round.
\<close>

definition fixture :: "protocol \<Rightarrow> string \<Rightarrow> int \<Rightarrow> expert" where
  "fixture prompts nm rnd =
     (new_expert prompts ''test_api_key'' ''openai'' ''test_model'' nm 100 ''system message'')
       \<lparr>self_question := Some ''What is the best programming language?'',
        self_answer_defending := Some ''Python'',
        self_answer_opposing := Some ''JavaScript'',
        self_current_round := rnd\<rparr>"

text \<open>
  The end-to-end scenario of the specification: a Debater, built as the tests build it,
  takes the position Q, D, O and then constructs three arguments on the story
  \<^verbatim>\<open>story\<close> and an empty transcript.
\<close>

definition fresh_debater :: expert where
  "fresh_debater =
     projr (Debater_init ''test_api_key'' ''openai'' ''test_model'' ''Test Debater'' 100)"

definition scenario_debater :: expert where
  "scenario_debater = snd (Debater_initial_position fresh_debater ''Q'' ''D'' ''O'')"

text \<open>A Consultant built the same way; the debater module stands in for its prompt module.\<close>

definition fresh_consultant :: expert where
  "fresh_consultant =
     projr (Consultant_init debater ''test_api_key'' ''openai'' ''test_model'' ''Test Consultant'' 100)"

definition scenario_consultant :: expert where
  "scenario_consultant = snd (Consultant_initial_position fresh_consultant ''Q'' ''D'' ''O'')"

definition scenario_calls :: "(string \<times> string) list" where
  "scenario_calls = [(''story'', []), (''story'', []), (''story'', [])]"

text \<open>A prompt module whose user request names a keyword that no caller passes.\<close>

definition missing_placeholder_prompts :: protocol where
  "missing_placeholder_prompts = debater\<lparr>user_request := Template ''<story>$story</story>$judge''\<rparr>"

definition STORY :: string where
  "STORY = ''Once upon a time...''"

definition TRANSCRIPT :: string where
  "TRANSCRIPT = ''In the beginning...''"

section \<open>Basic facts\<close>

lemma err_bind_simps [simp]: "err_bind (Inl e) f = Inl e" "err_bind (Inr v) f = f v"
  by (simp_all add: err_bind_def)

lemma sub_literal:
  "CHR ''$'' \<notin> set xs \<Longrightarrow> sub kws (xs @ ys) = err_bind (sub kws ys) (\<lambda>r. Inr (xs @ r))"
proof (induction xs)
  case Nil
  show ?case by (cases "sub kws ys") simp_all
next
  case (Cons x xs)
  then show ?case by (cases "sub kws ys") auto
qed

lemma sub_literal_end: "CHR ''$'' \<notin> set xs \<Longrightarrow> sub kws xs = Inr xs"
  using sub_literal [of xs kws "[]"] by simp

lemma dollar_not_id: "\<not> is_id_char (CHR ''$'')" "\<not> is_id_start (CHR ''$'')"
  by (simp_all add: is_id_char_def is_id_start_def)

lemma sub_named:
  assumes "nm \<noteq> []" "is_id_start (hd nm)" "\<forall>c \<in> set nm. is_id_char c"
    and "ys = [] \<or> \<not> is_id_char (hd ys)"
  shows "sub kws ((CHR ''$'' # nm) @ ys) =
           err_bind (convert_named kws nm) (\<lambda>v. err_bind (sub kws ys) (\<lambda>r. Inr (v @ r)))"
proof -
  obtain d ds where nm: "nm = d # ds" using assms(1) by (cases nm) auto
  have d: "is_id_start d" "d \<noteq> CHR ''$''" using assms(2) dollar_not_id nm by auto
  have tw: "takeWhile is_id_char (nm @ ys) = nm"
    using assms(3,4) by (cases ys) auto
  have dw: "dropWhile is_id_char (nm @ ys) = ys"
    using assms(3,4) by (cases ys) auto
  have "sub kws (CHR ''$'' # (d # ds) @ ys) =
          err_bind (convert_named kws (takeWhile is_id_char ((d # ds) @ ys))) (\<lambda>v.
          err_bind (sub kws (dropWhile is_id_char ((d # ds) @ ys))) (\<lambda>r. Inr (v @ r)))"
    using d by (simp del: takeWhile.simps dropWhile.simps)
  then show ?thesis using tw dw nm by simp
qed

lemma str_int_100: "str_int 100 = ''100''"
  by (simp add: str_int_def digit_char_def)

text \<open>
  Whether a rendering succeeds, and which exception it raises otherwise, depends on the
  names of the keyword arguments only, not on their values.
\<close>

lemma convert_named_keys:
  assumes "map fst kws = map fst kws'"
  shows "rel_sum (=) (\<lambda>_ _. True) (convert_named kws n) (convert_named kws' n)"
proof -
  have "(map_of kws n = None) = (map_of kws' n = None)"
    using assms by (metis list.set_map map_of_eq_None_iff)
  then show ?thesis
    by (auto simp: convert_named_def split: option.splits)
qed

lemma err_bind_rel:
  assumes "rel_sum (=) (\<lambda>_ _. True) a b"
    and "\<And>x y. rel_sum (=) (\<lambda>_ _. True) (f x) (g y)"
  shows "rel_sum (=) (\<lambda>_ _. True) (err_bind a f) (err_bind b g)"
  using assms by (cases a; cases b) auto

lemma sub_keys:
  assumes "map fst kws = map fst kws'"
  shows "rel_sum (=) (\<lambda>_ _. True) (sub kws s) (sub kws' s)"
  using assms
proof (induction kws s rule: sub.induct)
  case (1 kws)
  show ?case by simp
next
  case (2 kws c cs)
  note cn = convert_named_keys [OF "2.prems"]
  show ?case
  proof (cases "c \<noteq> CHR ''$''")
    case True
    with 2 show ?thesis by (auto intro!: err_bind_rel)
  next
    case dollar: False
    show ?thesis
    proof (cases cs)
      case Nil
      with dollar show ?thesis by simp
    next
      case (Cons d ds)
      show ?thesis
      proof (cases "d = CHR ''$''")
        case True
        with 2 dollar Cons show ?thesis by (auto intro!: err_bind_rel)
      next
        case nd: False
        show ?thesis
        proof (cases "is_id_start d")
          case True
          with "2.IH"(3) [OF dollar Cons nd True "2.prems"] dollar Cons nd cn
          show ?thesis by (auto intro!: err_bind_rel simp del: takeWhile.simps dropWhile.simps)
        next
          case ns: False
          show ?thesis
          proof (cases "d = CHR ''{'' \<and> ds \<noteq> [] \<and> is_id_start (hd ds)
                  \<and> take 1 (dropWhile is_id_char ds) = ''}''")
            case True
            with "2.IH"(4) [OF dollar Cons nd ns True "2.prems"] dollar Cons nd ns cn
            show ?thesis by (auto intro!: err_bind_rel simp del: takeWhile.simps dropWhile.simps)
          next
            case False
            with dollar Cons nd ns show ?thesis by auto
          qed
        qed
      qed
    qed
  qed
qed

lemma substitute_keys:
  assumes "map fst kws = map fst kws'"
  shows "succeeded (substitute tpl kws) = succeeded (substitute tpl kws')"
proof (cases tpl)
  case (Template s)
  from sub_keys [OF assms, of s] show ?thesis
    unfolding Template by (cases "sub kws s"; cases "sub kws' s") auto
qed

subsection \<open>Rendering the resources of the debater module\<close>

text \<open>
  Each template of the module is split at its placeholders; the literal pieces are copied
  and each placeholder is replaced by its keyword argument.
\<close>

lemma debater_user_request_render:
  \<open>substitute debater_user_request
     [(''story'', PyStr story), (''transcript'', PyStr transcript), (''new_argument_request'', PyStr req), (''thinking_advice'', PyStr advice), (''word_limit'', PyInt wl)] =
     Inr (''<story>\<newline>'' @
        story @
        ''\<newline></story>\<newline>Here's the current transcript of the debate:\<newline><transcript>\<newline>'' @
        transcript @
        ''\<newline></transcript>\<newline>\<newline>'' @
        req @
        ''\<newline>First, think about your argument in <thinking></thinking> tags by carrying out these steps:\<newline>'' @
        advice @
        ''\<newline>Finally, write your argument in <argument></argument> tags.\<newline>Do not exceed '' @
        str_int wl @
        '' words.\<newline>Remember to output <thinking> and <argument> stages in your response and <quote> tags around direct quotes.'')\<close>
proof -
  have split: \<open>debater_user_request = Template (
        ''<story>\<newline>'' @
        ''$story'' @
        ''\<newline></story>\<newline>Here's the current transcript of the debate:\<newline><transcript>\<newline>'' @
        ''$transcript'' @
        ''\<newline></transcript>\<newline>\<newline>'' @
        ''$new_argument_request'' @
        ''\<newline>First, think about your argument in <thinking></thinking> tags by carrying out these steps:\<newline>'' @
        ''$thinking_advice'' @
        ''\<newline>Finally, write your argument in <argument></argument> tags.\<newline>Do not exceed '' @
        ''$word_limit'' @
        '' words.\<newline>Remember to output <thinking> and <argument> stages in your response and <quote> tags around direct quotes.'')\<close>
    by (simp add: debater_user_request_def)
  show ?thesis
    unfolding split substitute.simps
    by (simp add: sub_literal sub_literal_end sub_named convert_named_def is_id_start_def
          is_id_char_def del: append.simps sub.simps)
qed

lemma debater_system_render:
  \<open>\<exists>text. substitute debater_system
     [(''name'', PyStr nm), (''word_limit'', PyInt wl)] = Inr text\<close>
proof -
  have split: \<open>debater_system = Template (
        ''You will act as an expert debater named '' @
        ''$name'' @
        '' engaging in a debate over answers to reading comprehension questions. You will be shown a question and two possible answers, followed by a story. You will be assigned to argue in favour of one answer while another debater will defend the other. A judge, unable to see the story, will decide the winner. Your goal is to persuade the judge that your answer is correct.\<newline>You should maintain a scholarly yet assertive tone focused on evidence-based analysis while critically evaluating counterarguments. Do not exceed '' @
        ''$word_limit'' @
        '' words per argument. A good rule of thumb is that a short paragraph and one quote take approximately 100 words. Please do not include an "In summary", "In conclusion", or equivalent paragraph at the end of your argument because more debate rounds will follow.\<newline>Structure your output as follows:\<newline><thinking>[THINKING]</thinking>\<newline><argument>[ARGUMENT]</argument>\<newline>The judge only sees the output in <argument> tags, so focus on clarity and persuasiveness in this section.\<newline>Here is some important information regarding the quote system:\<newline>- Supplement your points with direct quotes from the story using <quote></quote> tags.\<newline>- An external fact checker will verify quotes. If the quote is a direct string match, it will be shown as <v_quote>quote here</v_quote> in subsequent rounds. If the quote is inaccurate, it will be shown as <u_quote>quote here</u_quote>.\<newline>- There is no advantage to repeating quotes; always introduce more to support your argument.\<newline>- The absence of direct quotes in your opponent's argument should be explicitly stated when relevant.\<newline>Judging Criteria:\<newline>- Verified quotes are crucial, and how you integrate them into a logical and compelling argument is essential.\<newline>- Deductions for unverified quotes and repeating arguments.\<newline>- Points for developing arguments further and introducing new ones.\<newline>- Points for demonstrating misleading quotes from your opponent and for convincing counterarguments.\<newline>- Points for including good context about the story in the opening statement.'')\<close>
    by (simp add: debater_system_def)
  show ?thesis
    unfolding split substitute.simps
    by (simp add: sub_literal sub_literal_end sub_named convert_named_def is_id_start_def
          is_id_char_def del: append.simps sub.simps)
qed

lemma debater_user_question_render:
  \<open>substitute debater_user_question
     [(''question'', PyStr q), (''answer_defending'', PyStr d), (''answer_opposing'', PyStr opp)] =
     Inr (''Here is the question and the two answers:\<newline><question>'' @
        q @
        ''</question>\<newline><your_answer>'' @
        d @
        ''</your_answer>\<newline><opponent_answer>'' @
        opp @
        ''</opponent_answer>\<newline>Please restate your position and the position you are arguing against to confirm you understand.'')\<close>
proof -
  have split: \<open>debater_user_question = Template (
        ''Here is the question and the two answers:\<newline><question>'' @
        ''$question'' @
        ''</question>\<newline><your_answer>'' @
        ''$answer_defending'' @
        ''</your_answer>\<newline><opponent_answer>'' @
        ''$answer_opposing'' @
        ''</opponent_answer>\<newline>Please restate your position and the position you are arguing against to confirm you understand.'')\<close>
    by (simp add: debater_user_question_def)
  show ?thesis
    unfolding split substitute.simps
    by (simp add: sub_literal sub_literal_end sub_named convert_named_def is_id_start_def
          is_id_char_def del: append.simps sub.simps)
qed

lemma debater_assistant_response_render:
  \<open>substitute debater_assistant_response
     [(''question'', PyStr q), (''answer_defending'', PyStr d), (''answer_opposing'', PyStr opp)] =
     Inr (''I understand. I will argue that the answer to the question "'' @
        q @
        ''" is "'' @
        d @
        ''". I will argue against the answer "'' @
        opp @
        ''".'')\<close>
proof -
  have split: \<open>debater_assistant_response = Template (
        ''I understand. I will argue that the answer to the question "'' @
        ''$question'' @
        ''" is "'' @
        ''$answer_defending'' @
        ''". I will argue against the answer "'' @
        ''$answer_opposing'' @
        ''".'')\<close>
    by (simp add: debater_assistant_response_def)
  show ?thesis
    unfolding split substitute.simps
    by (simp add: sub_literal sub_literal_end sub_named convert_named_def is_id_start_def
          is_id_char_def del: append.simps sub.simps)
qed

subsection \<open>The methods follow the round algorithm\<close>

lemma render_round_frame [simp]:
  "render_round (self\<lparr>self_current_argument := a, self_current_round := r\<rparr>) rk pk story transcript =
     render_round self rk pk story transcript"
  by (simp add: render_round_def)

lemma render_round_answer_opposing [simp]:
  "render_round (self\<lparr>self_answer_opposing := x\<rparr>) rk pk story transcript =
     render_round self rk pk story transcript"
  by (simp add: render_round_def)

lemma Debater_refines:
  "Debater_construct_argument self story transcript =
     advance_round self (request_key_for (self_current_round self))
       (phase_key_for Debater (self_current_round self)) story transcript"
  by (simp add: Debater_construct_argument_def advance_round_def render_round_def request_key_for_def)

lemma Consultant_refines:
  "Consultant_construct_argument self story transcript =
     advance_round self (request_key_for (self_current_round self))
       (phase_key_for Consultant (self_current_round self)) story transcript"
  by (simp add: Consultant_construct_argument_def advance_round_def render_round_def request_key_for_def)

lemma construct_argument_refines:
  "construct_argument cls self story transcript =
     advance_round self (request_key_for (self_current_round self))
       (phase_key_for cls (self_current_round self)) story transcript"
  by (cases cls) (simp_all add: Debater_refines Consultant_refines)

lemma advance_round_answer_opposing:
  "advance_round (self\<lparr>self_answer_opposing := x\<rparr>) rk pk story transcript =
     (fst (advance_round self rk pk story transcript),
      (snd (advance_round self rk pk story transcript))\<lparr>self_answer_opposing := x\<rparr>)"
  by (simp add: advance_round_def split: sum.splits)

subsection \<open>Sequences of calls\<close>

lemma advance_round_fst [simp]:
  "fst (advance_round self rk pk story transcript) = render_round self rk pk story transcript"
  by (simp add: advance_round_def split: sum.splits)

lemma advance_round_round:
  "self_current_round (snd (advance_round self rk pk story transcript)) =
     self_current_round self +
       (if succeeded (render_round self rk pk story transcript) then 1 else 0)"
  by (simp add: advance_round_def split: sum.splits)

lemma render_round_advance [simp]:
  "render_round (snd (advance_round self rk pk story transcript)) rk' pk' story' transcript' =
     render_round self rk' pk' story' transcript'"
  by (simp add: advance_round_def split: sum.splits)

lemma run_calls_Cons:
  "run_calls cls self (call # calls) =
     (fst (construct_argument cls self (fst call) (snd call)) #
        fst (run_calls cls (snd (construct_argument cls self (fst call) (snd call))) calls),
      snd (run_calls cls (snd (construct_argument cls self (fst call) (snd call))) calls))"
  by (simp split: prod.splits)

declare run_calls.simps(2) [simp del]

lemma run_calls_length [simp]: "length (fst (run_calls cls self calls)) = length calls"
  by (induction calls arbitrary: self) (simp_all add: run_calls_Cons)

lemma run_calls_rounds:
  "self_current_round (snd (run_calls cls self calls)) =
     self_current_round self + int (length (filter succeeded (fst (run_calls cls self calls))))"
proof (induction calls arbitrary: self)
  case Nil
  show ?case by simp
next
  case (Cons call calls)
  show ?case
    unfolding run_calls_Cons
    by (simp add: Cons.IH construct_argument_refines advance_round_round)
qed

lemma run_calls_nth:
  "i < length calls \<Longrightarrow>
   fst (run_calls cls self calls) ! i =
     render_round self
       (request_key_for (self_current_round self +
          int (length (filter succeeded (take i (fst (run_calls cls self calls)))))))
       (phase_key_for cls (self_current_round self +
          int (length (filter succeeded (take i (fst (run_calls cls self calls)))))))
       (fst (calls ! i)) (snd (calls ! i))"
proof (induction calls arbitrary: self i)
  case Nil
  then show ?case by simp
next
  case (Cons call calls)
  show ?case
  proof (cases i)
    case 0
    then show ?thesis
      unfolding run_calls_Cons by (simp add: construct_argument_refines)
  next
    case (Suc j)
    with Cons.prems have j: "j < length calls" by simp
    show ?thesis
      unfolding run_calls_Cons Suc
      by (simp add: Cons.IH [OF j] construct_argument_refines advance_round_round add.assoc)
  qed
qed

lemma run_calls_take:
  "fst (run_calls cls self (take i calls)) = take i (fst (run_calls cls self calls))"
proof (induction calls arbitrary: self i)
  case Nil
  show ?case by simp
next
  case (Cons call calls)
  show ?case
    by (cases i) (simp_all add: Cons.IH run_calls_Cons)
qed

lemma successful_run:
  assumes "self_current_round self = 0"
    and "\<forall>r \<in> set (fst (run_calls cls self calls)). succeeded r"
  shows "self_current_round (snd (run_calls cls self calls)) = int (length calls)
    \<and> (\<forall>k. 1 \<le> k \<and> k \<le> length calls \<longrightarrow>
          fst (run_calls cls self calls) ! (k - 1) =
            render_round self (request_key_for (int k - 1)) (phase_key_for cls (int k - 1))
              (fst (calls ! (k - 1))) (snd (calls ! (k - 1)))
          \<and> self_current_round (snd (run_calls cls self (take (k - 1) calls))) = int k - 1
          \<and> self_current_round (snd (run_calls cls self (take k calls))) = int k)"
proof -
  have all: "filter succeeded (take i (fst (run_calls cls self calls))) =
      take i (fst (run_calls cls self calls))" for i
    using assms(2) by (auto simp: filter_id_conv dest: in_set_takeD)
  have prefix: "self_current_round (snd (run_calls cls self (take i calls))) = int (min i (length calls))"
    for i
    using run_calls_rounds [of cls self "take i calls"] all [of i] assms(1)
    by (simp add: run_calls_take min.commute)
  have total: "self_current_round (snd (run_calls cls self calls)) = int (length calls)"
    using prefix [of "length calls"] by simp
  have nth: "fst (run_calls cls self calls) ! i =
      render_round self (request_key_for (int i)) (phase_key_for cls (int i))
        (fst (calls ! i)) (snd (calls ! i))" if "i < length calls" for i
    using run_calls_nth [OF that, of cls self] all [of i] assms(1) that by (simp add: min_def)
  show ?thesis
  proof (intro conjI allI impI)
    show "self_current_round (snd (run_calls cls self calls)) = int (length calls)" by (rule total)
  next
    fix k assume k: "1 \<le> k \<and> k \<le> length calls"
    then have "k - 1 < length calls" by arith
    from nth [OF this] k
    show "fst (run_calls cls self calls) ! (k - 1) =
            render_round self (request_key_for (int k - 1)) (phase_key_for cls (int k - 1))
              (fst (calls ! (k - 1))) (snd (calls ! (k - 1)))"
      by (simp add: of_nat_diff)
    from k prefix [of "k - 1"]
    show "self_current_round (snd (run_calls cls self (take (k - 1) calls))) = int k - 1"
      by (auto simp: of_nat_diff min_def)
    from k prefix [of k]
    show "self_current_round (snd (run_calls cls self (take k calls))) = int k"
      by (simp add: min_def)
  qed
qed

lemma rendering_run_succeeds:
  assumes r0: "self_current_round self = 0"
    and h: "\<forall>k. 1 \<le> k \<and> k \<le> length calls \<longrightarrow>
          succeeded (render_round self (request_key_for (int k - 1)) (phase_key_for cls (int k - 1))
            (fst (calls ! (k - 1))) (snd (calls ! (k - 1))))"
  shows "\<forall>r \<in> set (fst (run_calls cls self calls)). succeeded r"
proof -
  let ?rs = "fst (run_calls cls self calls)"
  have pre: "i \<le> length calls \<Longrightarrow> filter succeeded (take i ?rs) = take i ?rs" for i
  proof (induction i)
    case 0
    show ?case by simp
  next
    case (Suc i)
    then have i: "i < length calls" by simp
    from Suc have ih: "filter succeeded (take i ?rs) = take i ?rs" by simp
    have "?rs ! i = render_round self (request_key_for (int i)) (phase_key_for cls (int i))
        (fst (calls ! i)) (snd (calls ! i))"
      using run_calls_nth [OF i, of cls self] ih r0 i by (simp add: min_def)
    moreover have "succeeded (render_round self (request_key_for (int i)) (phase_key_for cls (int i))
        (fst (calls ! i)) (snd (calls ! i)))"
      using h [rule_format, of "Suc i"] i by simp
    ultimately have "succeeded (?rs ! i)" by simp
    with ih i show ?case by (simp add: take_Suc_conv_app_nth)
  qed
  from pre [of "length calls"] show ?thesis by (simp add: filter_id_conv)
qed

subsection \<open>Concrete evaluation\<close>

text \<open>Evaluating a round of the fixture on the debater module.\<close>

lemmas fixture_eval =
  advance_round_def render_round_def fixture_def new_expert_def debater_def
  debater_new_argument_def debater_thinking_advice_def getitem_def getattr_def
  request_key_for_def debater_user_request_render is_id_start_def is_id_char_def
  convert_named_def STORY_def TRANSCRIPT_def str_int_100

lemma Debater_init_ok:
  assumes "prov = ''openai'' \<or> prov = ''anthropic''"
  shows "\<exists>sys. Debater_init key prov mdl nm wl = Inr (new_expert debater key prov mdl nm wl sys)"
proof -
  obtain sys where "substitute debater_system [(''name'', PyStr nm), (''word_limit'', PyInt wl)] = Inr sys"
    using debater_system_render by blast
  then show ?thesis
    using assms by (auto simp: Debater_init_def initialize_client_def debater_def)
qed

lemma debater_request_ok:
  "\<exists>tpl rendered. new_argument debater (request_key_for r) = Some tpl \<and>
     substitute tpl [(''question'', PyStr q), (''answer_defending'', PyStr d)] = Inr rendered"
  by (cases "r = 0")
     (simp_all add: request_key_for_def debater_def debater_new_argument_def is_id_start_def
        is_id_char_def convert_named_def)

lemma debater_advice_ok: "\<exists>advice. debater_thinking_advice (phase_key_for cls r) = Some advice"
  by (cases cls) (simp_all add: debater_thinking_advice_def)

lemma debater_render_succeeds:
  assumes "self_protocol self = debater" "self_thinking_advice self = debater_thinking_advice"
    and "self_question self = Some q" "self_answer_defending self = Some d"
  shows "succeeded (render_round self (request_key_for r) (phase_key_for cls r) story transcript)"
proof -
  obtain tpl rendered where t: "new_argument debater (request_key_for r) = Some tpl"
      "substitute tpl [(''question'', PyStr q), (''answer_defending'', PyStr d)] = Inr rendered"
    using debater_request_ok by blast
  obtain advice where a: "debater_thinking_advice (phase_key_for cls r) = Some advice"
    using debater_advice_ok by blast
  have "user_request debater = debater_user_request" by (simp add: debater_def)
  then show ?thesis
    using assms t a
    by (simp add: render_round_def getitem_def getattr_def debater_user_request_render)
qed

lemma scenario_debater_fields:
  "self_protocol scenario_debater = debater"
  "self_thinking_advice scenario_debater = debater_thinking_advice"
  "self_question scenario_debater = Some ''Q''"
  "self_answer_defending scenario_debater = Some ''D''"
  "self_current_round scenario_debater = 0"
proof -
  obtain sys where "Debater_init ''test_api_key'' ''openai'' ''test_model'' ''Test Debater'' 100 =
      Inr (new_expert debater ''test_api_key'' ''openai'' ''test_model'' ''Test Debater'' 100 sys)"
    using Debater_init_ok [of "''openai''"] by blast
  then have s: "scenario_debater =
      (new_expert debater ''test_api_key'' ''openai'' ''test_model'' ''Test Debater'' 100 sys)
        \<lparr>self_question := Some ''Q'', self_answer_defending := Some ''D'',
         self_answer_opposing := Some ''O''\<rparr>"
    by (simp add: scenario_debater_def fresh_debater_def Debater_initial_position_def)
  show "self_protocol scenario_debater = debater"
    "self_thinking_advice scenario_debater = debater_thinking_advice"
    "self_question scenario_debater = Some ''Q''"
    "self_answer_defending scenario_debater = Some ''D''"
    "self_current_round scenario_debater = 0"
    by (simp_all add: s new_expert_def debater_def)
qed

lemma scenario_all_succeed: "list_all succeeded (fst (run_calls cls scenario_debater calls))"
  unfolding list_all_length
proof (intro allI impI)
  fix i assume "i < length (fst (run_calls cls scenario_debater calls))"
  then have i: "i < length calls" by simp
  show "succeeded (fst (run_calls cls scenario_debater calls) ! i)"
    unfolding run_calls_nth [OF i]
    by (rule debater_render_succeeds [OF scenario_debater_fields(1-4)])
qed

subsection \<open>Objects fresh from their constructor\<close>

lemma Consultant_init_ok:
  "Consultant_init consultant key prov mdl nm wl = Inr self \<Longrightarrow>
     \<exists>sys. self = new_expert consultant key prov mdl nm wl sys"
  by (auto simp: Consultant_init_def err_bind_def split: sum.splits)

lemma Debater_init_new:
  "Debater_init key prov mdl nm wl = Inr self \<Longrightarrow>
     \<exists>sys. self = new_expert debater key prov mdl nm wl sys"
  by (auto simp: Debater_init_def err_bind_def split: sum.splits)

lemma new_expert_unset:
  "new_argument prompts ''opening_argument_request'' = Some tpl \<Longrightarrow>
   construct_argument cls (new_expert prompts key prov mdl nm wl sys) story transcript =
     (Inl (AttributeError ''_question''), new_expert prompts key prov mdl nm wl sys)"
  "initial_response cls (new_expert prompts key prov mdl nm wl sys) =
     (Inl (AttributeError ''_question''), new_expert prompts key prov mdl nm wl sys)"
  "self_current_round (new_expert prompts key prov mdl nm wl sys) = 0"
  by (cases cls; simp add: construct_argument_refines advance_round_def render_round_def
        request_key_for_def new_expert_def getitem_def getattr_def
        Debater_initial_response_def Consultant_initial_response_def
        del: construct_argument.simps)+

lemma debater_opening: "\<exists>tpl. new_argument debater ''opening_argument_request'' = Some tpl"
  by (simp add: debater_def debater_new_argument_def)

lemma fresh_debater_init:
  "Debater_init ''test_api_key'' ''openai'' ''test_model'' ''Test Debater'' 100 = Inr fresh_debater"
  using Debater_init_ok [of "''openai''" "''test_api_key''" "''test_model''" "''Test Debater''" 100]
  by (auto simp: fresh_debater_def)

lemma fresh_consultant_init:
  "Consultant_init debater ''test_api_key'' ''openai'' ''test_model'' ''Test Consultant'' 100 =
     Inr fresh_consultant"
proof -
  obtain sys where "substitute debater_system
      [(''name'', PyStr ''Test Consultant''), (''word_limit'', PyInt 100)] = Inr sys"
    using debater_system_render by blast
  then show ?thesis
    by (simp add: fresh_consultant_def Consultant_init_def initialize_client_def debater_def)
qed

lemma scenario_consultant_fields:
  "self_protocol scenario_consultant = debater"
  "self_thinking_advice scenario_consultant = debater_thinking_advice"
  "self_question scenario_consultant = Some ''Q''"
  "self_answer_defending scenario_consultant = Some ''D''"
  "self_current_round scenario_consultant = 0"
proof -
  obtain sys where "fresh_consultant =
      new_expert debater ''test_api_key'' ''openai'' ''test_model'' ''Test Consultant'' 100 sys"
    using Consultant_init_ok [OF fresh_consultant_init] by blast
  then have s: "scenario_consultant =
      (new_expert debater ''test_api_key'' ''openai'' ''test_model'' ''Test Consultant'' 100 sys)
        \<lparr>self_question := Some ''Q'', self_answer_defending := Some ''D'',
         self_answer_opposing := Some ''O''\<rparr>"
    by (simp add: scenario_consultant_def Consultant_initial_position_def)
  show "self_protocol scenario_consultant = debater"
    "self_thinking_advice scenario_consultant = debater_thinking_advice"
    "self_question scenario_consultant = Some ''Q''"
    "self_answer_defending scenario_consultant = Some ''D''"
    "self_current_round scenario_consultant = 0"
    by (simp_all add: s new_expert_def debater_def)
qed

lemma fixture_fields:
  "self_protocol (fixture debater nm r) = debater"
  "self_thinking_advice (fixture debater nm r) = debater_thinking_advice"
  "self_question (fixture debater nm r) = Some ''What is the best programming language?''"
  "self_answer_defending (fixture debater nm r) = Some ''Python''"
  "self_current_round (fixture debater nm r) = r"
  by (simp_all add: fixture_def new_expert_def debater_def)

subsection \<open>Letter resolution of the interactive debater\<close>

lemma IDebater_one_pair_each:
  assumes "dtext \<noteq> []" "otext \<noteq> []"
    and "dl = ''A'' \<and> ol = ''B'' \<or> dl = ''B'' \<and> ol = ''A''"
  shows "snd (IDebater_initial_position self question [dl \<mapsto> dtext] [ol \<mapsto> otext] opponent_name) =
     self\<lparr>self_question := Some question, self_opponent_name := Some opponent_name,
          self_answer_a := Some (PyStr (if dl = ''A'' then dtext else otext)),
          self_answer_b := Some (PyStr (if dl = ''B'' then dtext else otext)),
          self_answer_defending_letter := Some dl, self_answer_defending := Some dtext,
          self_answer_opposing_letter := Some ol, self_answer_opposing := Some otext\<rparr>"
  using assms(3)
proof (elim disjE conjE)
  assume "dl = ''A''" "ol = ''B''"
  then show ?thesis
    using assms(1,2)
    by (simp add: IDebater_initial_position_def Let_def dict_get_def py_or_def getitem_def)
next
  assume "dl = ''B''" "ol = ''A''"
  then show ?thesis
    using assms(1,2)
    by (simp add: IDebater_initial_position_def Let_def dict_get_def py_or_def getitem_def)
qed

lemma IDebater_answers:
  "self_answer_a (snd (IDebater_initial_position self question answer_defending answer_opposing
        opponent_name)) =
     Some (py_or (dict_get answer_defending ''A'') (dict_get answer_opposing ''A''))"
  "self_answer_b (snd (IDebater_initial_position self question answer_defending answer_opposing
        opponent_name)) =
     Some (py_or (dict_get answer_defending ''B'') (dict_get answer_opposing ''B''))"
  by (simp_all add: IDebater_initial_position_def Let_def split: sum.splits split del: if_split)

section \<open>The claims\<close>

text \<open>
  Claim C10. The prompt that \<^verbatim>\<open>construct_argument\<close> returns for a Consultant and for a
  Debater does not depend on the stored opposing answer: two states that differ only in
  \<^verbatim>\<open>_answer_opposing\<close> give the same result (text or exception) and the same state
  updates, so that the states after the call again differ only in \<^verbatim>\<open>_answer_opposing\<close>.
\<close>

theorem construct_argument_ignores_answer_opposing:
  "fst (Debater_construct_argument (self\<lparr>self_answer_opposing := x\<rparr>) story transcript) =
     fst (Debater_construct_argument (self\<lparr>self_answer_opposing := y\<rparr>) story transcript)
   \<and> snd (Debater_construct_argument (self\<lparr>self_answer_opposing := x\<rparr>) story transcript) =
     (snd (Debater_construct_argument (self\<lparr>self_answer_opposing := y\<rparr>) story transcript))
       \<lparr>self_answer_opposing := x\<rparr>
   \<and> fst (Consultant_construct_argument (self\<lparr>self_answer_opposing := x\<rparr>) story transcript) =
     fst (Consultant_construct_argument (self\<lparr>self_answer_opposing := y\<rparr>) story transcript)
   \<and> snd (Consultant_construct_argument (self\<lparr>self_answer_opposing := x\<rparr>) story transcript) =
     (snd (Consultant_construct_argument (self\<lparr>self_answer_opposing := y\<rparr>) story transcript))
       \<lparr>self_answer_opposing := x\<rparr>"
  by (simp add: Debater_refines Consultant_refines advance_round_answer_opposing)

text \<open>
  Claim C2. The thinking advice that a call embeds is chosen from the round before the
  increment. For a Debater, and for an IDebater, which inherits the method, round 0
  takes \<^verbatim>\<open>first_round_thinking\<close>, round 1 takes \<^verbatim>\<open>second_round_thinking\<close> and
  every round from 2 on takes \<^verbatim>\<open>nth_round_thinking\<close>. For a Consultant round 0 takes
  \<^verbatim>\<open>first_round_thinking\<close> and every round from 1 on takes \<^verbatim>\<open>nth_round_thinking\<close>.
\<close>

theorem thinking_phase_selection:
  "(self_current_round self = 0 \<longrightarrow>
      construct_argument Debater self story transcript =
        advance_round self (request_key_for (self_current_round self)) ''first_round_thinking'' story transcript)
   \<and> (self_current_round self = 1 \<longrightarrow>
      construct_argument Debater self story transcript =
        advance_round self (request_key_for (self_current_round self)) ''second_round_thinking'' story transcript)
   \<and> (2 \<le> self_current_round self \<longrightarrow>
      construct_argument Debater self story transcript =
        advance_round self (request_key_for (self_current_round self)) ''nth_round_thinking'' story transcript)
   \<and> construct_argument IDebater = construct_argument Debater
   \<and> (self_current_round self = 0 \<longrightarrow>
      construct_argument Consultant self story transcript =
        advance_round self (request_key_for (self_current_round self)) ''first_round_thinking'' story transcript)
   \<and> (1 \<le> self_current_round self \<longrightarrow>
      construct_argument Consultant self story transcript =
        advance_round self (request_key_for (self_current_round self)) ''nth_round_thinking'' story transcript)"
  by (simp add: Debater_refines Consultant_refines)

theorem thinking_phase_selection_witness:
  "construct_argument Debater (fixture debater ''Test Debater'' 0) STORY TRANSCRIPT =
     advance_round (fixture debater ''Test Debater'' 0) ''opening_argument_request''
       ''first_round_thinking'' STORY TRANSCRIPT
   \<and> construct_argument Debater (fixture debater ''Test Debater'' 1) STORY TRANSCRIPT =
     advance_round (fixture debater ''Test Debater'' 1) ''nth_argument_request''
       ''second_round_thinking'' STORY TRANSCRIPT
   \<and> construct_argument Debater (fixture debater ''Test Debater'' 2) STORY TRANSCRIPT =
     advance_round (fixture debater ''Test Debater'' 2) ''nth_argument_request''
       ''nth_round_thinking'' STORY TRANSCRIPT
   \<and> construct_argument Consultant (fixture debater ''Test Consultant'' 0) STORY TRANSCRIPT =
     advance_round (fixture debater ''Test Consultant'' 0) ''opening_argument_request''
       ''first_round_thinking'' STORY TRANSCRIPT
   \<and> construct_argument Consultant (fixture debater ''Test Consultant'' 1) STORY TRANSCRIPT =
     advance_round (fixture debater ''Test Consultant'' 1) ''nth_argument_request''
       ''nth_round_thinking'' STORY TRANSCRIPT
   \<and> succeeded (fst (construct_argument Debater (fixture debater ''Test Debater'' 1) STORY TRANSCRIPT))
   \<and> fst (construct_argument Debater (fixture debater ''Test Debater'' 1) STORY TRANSCRIPT) \<noteq>
       fst (construct_argument Debater (fixture debater ''Test Debater'' 2) STORY TRANSCRIPT)
   \<and> fst (construct_argument Consultant (fixture debater ''Test Consultant'' 1) STORY TRANSCRIPT) =
       fst (construct_argument Consultant (fixture debater ''Test Consultant'' 2) STORY TRANSCRIPT)"
proof -
  have rounds: "self_current_round (fixture prompts nm r) = r" for prompts nm r
    by (simp add: fixture_def)
  have d0: "construct_argument Debater (fixture debater ''Test Debater'' 0) STORY TRANSCRIPT =
     advance_round (fixture debater ''Test Debater'' 0) ''opening_argument_request''
       ''first_round_thinking'' STORY TRANSCRIPT"
    using thinking_phase_selection [of "fixture debater ''Test Debater'' 0" STORY TRANSCRIPT]
    by (simp add: rounds request_key_for_def)
  have d1: "construct_argument Debater (fixture debater ''Test Debater'' 1) STORY TRANSCRIPT =
     advance_round (fixture debater ''Test Debater'' 1) ''nth_argument_request''
       ''second_round_thinking'' STORY TRANSCRIPT"
    using thinking_phase_selection [of "fixture debater ''Test Debater'' 1" STORY TRANSCRIPT]
    by (simp add: rounds request_key_for_def)
  have d2: "construct_argument Debater (fixture debater ''Test Debater'' 2) STORY TRANSCRIPT =
     advance_round (fixture debater ''Test Debater'' 2) ''nth_argument_request''
       ''nth_round_thinking'' STORY TRANSCRIPT"
    using thinking_phase_selection [of "fixture debater ''Test Debater'' 2" STORY TRANSCRIPT]
    by (simp add: rounds request_key_for_def)
  have c0: "construct_argument Consultant (fixture debater ''Test Consultant'' 0) STORY TRANSCRIPT =
     advance_round (fixture debater ''Test Consultant'' 0) ''opening_argument_request''
       ''first_round_thinking'' STORY TRANSCRIPT"
    using thinking_phase_selection [of "fixture debater ''Test Consultant'' 0" STORY TRANSCRIPT]
    by (simp add: rounds request_key_for_def)
  have c1: "construct_argument Consultant (fixture debater ''Test Consultant'' 1) STORY TRANSCRIPT =
     advance_round (fixture debater ''Test Consultant'' 1) ''nth_argument_request''
       ''nth_round_thinking'' STORY TRANSCRIPT"
    using thinking_phase_selection [of "fixture debater ''Test Consultant'' 1" STORY TRANSCRIPT]
    by (simp add: rounds request_key_for_def)
  have c2: "construct_argument Consultant (fixture debater ''Test Consultant'' 2) STORY TRANSCRIPT =
     advance_round (fixture debater ''Test Consultant'' 2) ''nth_argument_request''
       ''nth_round_thinking'' STORY TRANSCRIPT"
    using thinking_phase_selection [of "fixture debater ''Test Consultant'' 2" STORY TRANSCRIPT]
    by (simp add: rounds request_key_for_def)
  have ok: "succeeded (fst (advance_round (fixture debater ''Test Debater'' 1) ''nth_argument_request''
       ''second_round_thinking'' STORY TRANSCRIPT))"
    by (simp add: fixture_eval)
  have differ: "fst (advance_round (fixture debater ''Test Debater'' 1) ''nth_argument_request''
       ''second_round_thinking'' STORY TRANSCRIPT) \<noteq>
     fst (advance_round (fixture debater ''Test Debater'' 2) ''nth_argument_request''
       ''nth_round_thinking'' STORY TRANSCRIPT)"
    by (simp add: fixture_eval)
  have same: "fst (advance_round (fixture debater ''Test Consultant'' 1) ''nth_argument_request''
       ''nth_round_thinking'' STORY TRANSCRIPT) =
     fst (advance_round (fixture debater ''Test Consultant'' 2) ''nth_argument_request''
       ''nth_round_thinking'' STORY TRANSCRIPT)"
    by (simp add: fixture_eval)
  show ?thesis
    unfolding d0 d1 d2 c0 c1 c2 using ok differ same by simp
qed

text \<open>
  Claim C1. After any sequence of \<^verbatim>\<open>construct_argument\<close> calls on a Consultant, a
  Debater or an IDebater the round has grown by the number of calls that succeeded, and
  every call returns what the round algorithm renders with the two keys of the round
  before it. So when the object starts at round 0 and the renderings succeed, all N calls
  succeed and the round is N after them; the k-th call renders with the two keys of
  round k - 1, the round before its increment, and the round is k - 1 before the k-th
  call and k after it. The same holds when the N calls are known to have succeeded.
\<close>

theorem round_counter_after_calls:
  "self_current_round (snd (run_calls cls self calls)) =
     self_current_round self + int (length (filter succeeded (fst (run_calls cls self calls))))
   \<and> (\<forall>i. i < length calls \<longrightarrow>
        fst (run_calls cls self calls) ! i =
          render_round self
            (request_key_for (self_current_round self +
               int (length (filter succeeded (take i (fst (run_calls cls self calls)))))))
            (phase_key_for cls (self_current_round self +
               int (length (filter succeeded (take i (fst (run_calls cls self calls)))))))
            (fst (calls ! i)) (snd (calls ! i)))
   \<and> (self_current_round self = 0
        \<and> (\<forall>k. 1 \<le> k \<and> k \<le> length calls \<longrightarrow>
              succeeded (render_round self (request_key_for (int k - 1))
                (phase_key_for cls (int k - 1)) (fst (calls ! (k - 1))) (snd (calls ! (k - 1)))))
        \<longrightarrow>
        list_all succeeded (fst (run_calls cls self calls))
        \<and> self_current_round (snd (run_calls cls self calls)) = int (length calls)
        \<and> (\<forall>k. 1 \<le> k \<and> k \<le> length calls \<longrightarrow>
              fst (run_calls cls self calls) ! (k - 1) =
                render_round self (request_key_for (int k - 1)) (phase_key_for cls (int k - 1))
                  (fst (calls ! (k - 1))) (snd (calls ! (k - 1)))
              \<and> self_current_round (snd (run_calls cls self (take (k - 1) calls))) = int k - 1
              \<and> self_current_round (snd (run_calls cls self (take k calls))) = int k))
   \<and> (self_current_round self = 0
        \<and> (\<forall>r \<in> set (fst (run_calls cls self calls)). succeeded r)
        \<longrightarrow>
        self_current_round (snd (run_calls cls self calls)) = int (length calls)
        \<and> (\<forall>k. 1 \<le> k \<and> k \<le> length calls \<longrightarrow>
              fst (run_calls cls self calls) ! (k - 1) =
                render_round self (request_key_for (int k - 1)) (phase_key_for cls (int k - 1))
                  (fst (calls ! (k - 1))) (snd (calls ! (k - 1)))
              \<and> self_current_round (snd (run_calls cls self (take (k - 1) calls))) = int k - 1
              \<and> self_current_round (snd (run_calls cls self (take k calls))) = int k))"
proof (intro conjI)
  show "self_current_round (snd (run_calls cls self calls)) =
     self_current_round self + int (length (filter succeeded (fst (run_calls cls self calls))))"
    by (rule run_calls_rounds)
next
  show "\<forall>i. i < length calls \<longrightarrow>
        fst (run_calls cls self calls) ! i =
          render_round self
            (request_key_for (self_current_round self +
               int (length (filter succeeded (take i (fst (run_calls cls self calls)))))))
            (phase_key_for cls (self_current_round self +
               int (length (filter succeeded (take i (fst (run_calls cls self calls)))))))
            (fst (calls ! i)) (snd (calls ! i))"
    using run_calls_nth by blast
next
  show "self_current_round self = 0
        \<and> (\<forall>k. 1 \<le> k \<and> k \<le> length calls \<longrightarrow>
              succeeded (render_round self (request_key_for (int k - 1))
                (phase_key_for cls (int k - 1)) (fst (calls ! (k - 1))) (snd (calls ! (k - 1)))))
        \<longrightarrow>
        list_all succeeded (fst (run_calls cls self calls))
        \<and> self_current_round (snd (run_calls cls self calls)) = int (length calls)
        \<and> (\<forall>k. 1 \<le> k \<and> k \<le> length calls \<longrightarrow>
              fst (run_calls cls self calls) ! (k - 1) =
                render_round self (request_key_for (int k - 1)) (phase_key_for cls (int k - 1))
                  (fst (calls ! (k - 1))) (snd (calls ! (k - 1)))
              \<and> self_current_round (snd (run_calls cls self (take (k - 1) calls))) = int k - 1
              \<and> self_current_round (snd (run_calls cls self (take k calls))) = int k)"
  proof (intro impI, elim conjE)
    assume r0: "self_current_round self = 0"
      and h: "\<forall>k. 1 \<le> k \<and> k \<le> length calls \<longrightarrow>
              succeeded (render_round self (request_key_for (int k - 1))
                (phase_key_for cls (int k - 1)) (fst (calls ! (k - 1))) (snd (calls ! (k - 1))))"
    note ok = rendering_run_succeeds [OF r0 h]
    from ok have la: "list_all succeeded (fst (run_calls cls self calls))"
      by (simp add: list_all_iff)
    from la successful_run [OF r0 ok] show "list_all succeeded (fst (run_calls cls self calls))
        \<and> self_current_round (snd (run_calls cls self calls)) = int (length calls)
        \<and> (\<forall>k. 1 \<le> k \<and> k \<le> length calls \<longrightarrow>
              fst (run_calls cls self calls) ! (k - 1) =
                render_round self (request_key_for (int k - 1)) (phase_key_for cls (int k - 1))
                  (fst (calls ! (k - 1))) (snd (calls ! (k - 1)))
              \<and> self_current_round (snd (run_calls cls self (take (k - 1) calls))) = int k - 1
              \<and> self_current_round (snd (run_calls cls self (take k calls))) = int k)"
      by (rule conjI)
  qed
next
  show "self_current_round self = 0
        \<and> (\<forall>r \<in> set (fst (run_calls cls self calls)). succeeded r)
        \<longrightarrow>
        self_current_round (snd (run_calls cls self calls)) = int (length calls)
        \<and> (\<forall>k. 1 \<le> k \<and> k \<le> length calls \<longrightarrow>
              fst (run_calls cls self calls) ! (k - 1) =
                render_round self (request_key_for (int k - 1)) (phase_key_for cls (int k - 1))
                  (fst (calls ! (k - 1))) (snd (calls ! (k - 1)))
              \<and> self_current_round (snd (run_calls cls self (take (k - 1) calls))) = int k - 1
              \<and> self_current_round (snd (run_calls cls self (take k calls))) = int k)"
    using successful_run [of self cls calls] by blast
qed

theorem round_counter_after_calls_witness:
  "list_all succeeded (fst (run_calls Debater scenario_debater scenario_calls))
   \<and> self_current_round (snd (run_calls Debater scenario_debater scenario_calls)) = 3
   \<and> fst (run_calls Debater scenario_debater scenario_calls) ! 0 =
       render_round scenario_debater ''opening_argument_request'' ''first_round_thinking'' ''story'' []
   \<and> fst (run_calls Debater scenario_debater scenario_calls) ! 1 =
       render_round scenario_debater ''nth_argument_request'' ''second_round_thinking'' ''story'' []
   \<and> fst (run_calls Debater scenario_debater scenario_calls) ! 2 =
       render_round scenario_debater ''nth_argument_request'' ''nth_round_thinking'' ''story'' []
   \<and> list_all succeeded (fst (run_calls Consultant scenario_consultant scenario_calls))
   \<and> self_current_round (snd (run_calls Consultant scenario_consultant scenario_calls)) = 3
   \<and> fst (run_calls Consultant scenario_consultant scenario_calls) ! 0 =
       render_round scenario_consultant ''opening_argument_request'' ''first_round_thinking'' ''story'' []
   \<and> fst (run_calls Consultant scenario_consultant scenario_calls) ! 1 =
       render_round scenario_consultant ''nth_argument_request'' ''nth_round_thinking'' ''story'' []
   \<and> fst (run_calls Consultant scenario_consultant scenario_calls) ! 2 =
       render_round scenario_consultant ''nth_argument_request'' ''nth_round_thinking'' ''story'' []
   \<and> list_all succeeded (fst (run_calls IDebater (fixture debater ''Test IDebater'' 0) scenario_calls))
   \<and> self_current_round (snd (run_calls IDebater (fixture debater ''Test IDebater'' 0) scenario_calls)) = 3
   \<and> fst (run_calls IDebater (fixture debater ''Test IDebater'' 0) scenario_calls) ! 1 =
       render_round (fixture debater ''Test IDebater'' 0) ''nth_argument_request''
         ''second_round_thinking'' ''story'' []
   \<and> self_current_round scenario_debater = 0
   \<and> self_current_round scenario_consultant = 0
   \<and> self_current_round (fixture debater ''Test IDebater'' 0) = 0"
proof -
  have len: "length scenario_calls = 3" by (simp add: scenario_calls_def)
  have run: "list_all succeeded (fst (run_calls cls S scenario_calls))
      \<and> self_current_round (snd (run_calls cls S scenario_calls)) = 3
      \<and> fst (run_calls cls S scenario_calls) ! 0 =
          render_round S ''opening_argument_request'' (phase_key_for cls 0) ''story'' []
      \<and> fst (run_calls cls S scenario_calls) ! 1 =
          render_round S ''nth_argument_request'' (phase_key_for cls 1) ''story'' []
      \<and> fst (run_calls cls S scenario_calls) ! 2 =
          render_round S ''nth_argument_request'' (phase_key_for cls 2) ''story'' []"
    if f: "self_protocol S = debater" "self_thinking_advice S = debater_thinking_advice"
      "self_question S = Some q" "self_answer_defending S = Some d" "self_current_round S = 0"
    for cls S q d
  proof -
    have hyp: "\<forall>k. 1 \<le> k \<and> k \<le> length scenario_calls \<longrightarrow>
        succeeded (render_round S (request_key_for (int k - 1)) (phase_key_for cls (int k - 1))
          (fst (scenario_calls ! (k - 1))) (snd (scenario_calls ! (k - 1))))"
      by (simp add: debater_render_succeeds [OF f(1-4)])
    note c = round_counter_after_calls [of cls S scenario_calls, THEN conjunct2, THEN conjunct2,
      THEN conjunct1, THEN mp, OF conjI, OF f(5) hyp]
    from c have k: "1 \<le> k \<and> k \<le> 3 \<Longrightarrow>
        fst (run_calls cls S scenario_calls) ! (k - 1) =
          render_round S (request_key_for (int k - 1)) (phase_key_for cls (int k - 1))
            (fst (scenario_calls ! (k - 1))) (snd (scenario_calls ! (k - 1)))" for k
      by (simp add: len)
    from c have "list_all succeeded (fst (run_calls cls S scenario_calls))"
      "self_current_round (snd (run_calls cls S scenario_calls)) = 3"
      by (simp_all add: len)
    then show ?thesis
      using k [of 1] k [of 2] k [of 3]
      by (simp add: request_key_for_def scenario_calls_def del: phase_key_for.simps)
  qed
  show ?thesis
    using run [OF scenario_debater_fields, of Debater]
      run [OF scenario_consultant_fields, of Consultant]
      run [OF fixture_fields, of IDebater "''Test IDebater''"]
    by (simp add: scenario_debater_fields(5) scenario_consultant_fields(5) fixture_fields(5))
qed

text \<open>
  Claim C8. On every variant the new-argument-request template is chosen from the round
  before the increment: round 0 takes \<^verbatim>\<open>opening_argument_request\<close> and every round from 1
  on takes \<^verbatim>\<open>nth_argument_request\<close>.
\<close>

theorem request_key_selection:
  "(self_current_round self = 0 \<longrightarrow>
      construct_argument cls self story transcript =
        advance_round self ''opening_argument_request'' (phase_key_for cls (self_current_round self))
          story transcript)
   \<and> (1 \<le> self_current_round self \<longrightarrow>
      construct_argument cls self story transcript =
        advance_round self ''nth_argument_request'' (phase_key_for cls (self_current_round self))
          story transcript)"
  by (simp add: construct_argument_refines request_key_for_def)

theorem request_key_selection_witness:
  "construct_argument Consultant (fixture debater ''Test Consultant'' 0) STORY TRANSCRIPT =
     advance_round (fixture debater ''Test Consultant'' 0) ''opening_argument_request''
       ''first_round_thinking'' STORY TRANSCRIPT
   \<and> construct_argument Debater (fixture debater ''Test Debater'' 0) STORY TRANSCRIPT =
     advance_round (fixture debater ''Test Debater'' 0) ''opening_argument_request''
       ''first_round_thinking'' STORY TRANSCRIPT
   \<and> construct_argument Consultant (fixture debater ''Test Consultant'' 1) STORY TRANSCRIPT =
     advance_round (fixture debater ''Test Consultant'' 1) ''nth_argument_request''
       ''nth_round_thinking'' STORY TRANSCRIPT
   \<and> construct_argument IDebater (fixture debater ''Test IDebater'' 7) STORY TRANSCRIPT =
     advance_round (fixture debater ''Test IDebater'' 7) ''nth_argument_request''
       ''nth_round_thinking'' STORY TRANSCRIPT
   \<and> succeeded (fst (construct_argument Consultant (fixture debater ''Test Consultant'' 0) STORY TRANSCRIPT))
   \<and> fst (advance_round (fixture debater ''Test Debater'' 0) ''opening_argument_request''
          ''nth_round_thinking'' STORY TRANSCRIPT) \<noteq>
       fst (advance_round (fixture debater ''Test Debater'' 0) ''nth_argument_request''
          ''nth_round_thinking'' STORY TRANSCRIPT)"
proof -
  have rounds: "self_current_round (fixture prompts nm r) = r" for prompts nm r
    by (simp add: fixture_def)
  have c0: "construct_argument Consultant (fixture debater ''Test Consultant'' 0) STORY TRANSCRIPT =
     advance_round (fixture debater ''Test Consultant'' 0) ''opening_argument_request''
       ''first_round_thinking'' STORY TRANSCRIPT"
    using request_key_selection [of "fixture debater ''Test Consultant'' 0" Consultant STORY TRANSCRIPT]
    by (simp add: rounds)
  have d0: "construct_argument Debater (fixture debater ''Test Debater'' 0) STORY TRANSCRIPT =
     advance_round (fixture debater ''Test Debater'' 0) ''opening_argument_request''
       ''first_round_thinking'' STORY TRANSCRIPT"
    using request_key_selection [of "fixture debater ''Test Debater'' 0" Debater STORY TRANSCRIPT]
    by (simp add: rounds)
  have c1: "construct_argument Consultant (fixture debater ''Test Consultant'' 1) STORY TRANSCRIPT =
     advance_round (fixture debater ''Test Consultant'' 1) ''nth_argument_request''
       ''nth_round_thinking'' STORY TRANSCRIPT"
    using request_key_selection [of "fixture debater ''Test Consultant'' 1" Consultant STORY TRANSCRIPT]
    by (simp add: rounds)
  have i7: "construct_argument IDebater (fixture debater ''Test IDebater'' 7) STORY TRANSCRIPT =
     advance_round (fixture debater ''Test IDebater'' 7) ''nth_argument_request''
       ''nth_round_thinking'' STORY TRANSCRIPT"
    using request_key_selection [of "fixture debater ''Test IDebater'' 7" IDebater STORY TRANSCRIPT]
    by (simp add: rounds)
  have ok: "succeeded (fst (advance_round (fixture debater ''Test Consultant'' 0)
      ''opening_argument_request'' ''first_round_thinking'' STORY TRANSCRIPT))"
    by (simp add: fixture_eval)
  have differ: "fst (advance_round (fixture debater ''Test Debater'' 0) ''opening_argument_request''
          ''nth_round_thinking'' STORY TRANSCRIPT) \<noteq>
       fst (advance_round (fixture debater ''Test Debater'' 0) ''nth_argument_request''
          ''nth_round_thinking'' STORY TRANSCRIPT)"
    by (simp add: fixture_eval)
  show ?thesis
    unfolding c0 d0 c1 i7 using ok differ by simp
qed

text \<open>
  Claim C3. When rendering raises an exception during \<^verbatim>\<open>construct_argument\<close>, for example
  for a placeholder that no keyword fills, the caller receives that exception and the
  object is as it was before the call: the round is not incremented and
  \<^verbatim>\<open>_current_argument\<close> keeps its value. A call either succeeds, storing the text and
  adding one to the round, or changes nothing.
\<close>

theorem rendering_failure_leaves_state:
  "(render_round self (request_key_for (self_current_round self))
       (phase_key_for cls (self_current_round self)) story transcript = Inl e \<longrightarrow>
      construct_argument cls self story transcript = (Inl e, self))
   \<and> (fst (construct_argument cls self story transcript) = Inl e \<longrightarrow>
      snd (construct_argument cls self story transcript) = self)
   \<and> (fst (construct_argument cls self story transcript) = Inr argument \<longrightarrow>
      snd (construct_argument cls self story transcript) =
        self\<lparr>self_current_argument := Some argument,
             self_current_round := self_current_round self + 1\<rparr>)"
  by (simp add: construct_argument_refines advance_round_def split: sum.splits)

theorem rendering_failure_leaves_state_witness:
  "render_round (fixture missing_placeholder_prompts ''Test Debater'' 0)
       ''opening_argument_request'' ''first_round_thinking'' STORY TRANSCRIPT = Inl (KeyError ''judge'')
   \<and> construct_argument Debater (fixture missing_placeholder_prompts ''Test Debater'' 0)
         STORY TRANSCRIPT =
       (Inl (KeyError ''judge''), fixture missing_placeholder_prompts ''Test Debater'' 0)
   \<and> self_current_round (snd (construct_argument Debater
         (fixture missing_placeholder_prompts ''Test Debater'' 0) STORY TRANSCRIPT)) = 0
   \<and> self_current_argument (snd (construct_argument Debater
         (fixture missing_placeholder_prompts ''Test Debater'' 0) STORY TRANSCRIPT)) = None
   \<and> succeeded (fst (construct_argument Debater (fixture debater ''Test Debater'' 0) STORY TRANSCRIPT))
   \<and> self_current_round (snd (construct_argument Debater
         (fixture debater ''Test Debater'' 0) STORY TRANSCRIPT)) = 1"
proof -
  let ?bad = "fixture missing_placeholder_prompts ''Test Debater'' 0"
  let ?good = "fixture debater ''Test Debater'' 0"
  have r: "self_current_round (fixture prompts nm 0) = 0" for prompts nm
    by (simp add: fixture_def)
  have fails: "render_round ?bad ''opening_argument_request'' ''first_round_thinking''
      STORY TRANSCRIPT = Inl (KeyError ''judge'')"
    by (simp add: fixture_eval missing_placeholder_prompts_def)
  with rendering_failure_leaves_state [of ?bad Debater STORY TRANSCRIPT "KeyError ''judge''"]
  have call: "construct_argument Debater ?bad STORY TRANSCRIPT = (Inl (KeyError ''judge''), ?bad)"
    by (simp add: r request_key_for_def del: construct_argument.simps)
  have fresh: "self_current_argument ?bad = None"
    by (simp add: fixture_def new_expert_def)
  obtain argument where ok: "render_round ?good ''opening_argument_request'' ''first_round_thinking''
      STORY TRANSCRIPT = Inr argument"
    by (simp add: fixture_eval)
  then have good: "fst (construct_argument Debater ?good STORY TRANSCRIPT) = Inr argument"
    by (simp add: construct_argument_refines r request_key_for_def del: construct_argument.simps)
  with rendering_failure_leaves_state [of ?good Debater STORY TRANSCRIPT _ argument]
  have "snd (construct_argument Debater ?good STORY TRANSCRIPT) =
      ?good\<lparr>self_current_argument := Some argument, self_current_round := 1\<rparr>"
    by (simp add: r del: construct_argument.simps)
  with fails call fresh good show ?thesis
    by (simp add: r del: construct_argument.simps)
qed

text \<open>
  Claim C4, as the code has it. On a Consultant or Debater fresh from its constructor,
  \<^verbatim>\<open>construct_argument\<close> and \<^verbatim>\<open>initial_response\<close> raise Python's \<^verbatim>\<open>AttributeError\<close>
  for the attribute \<^verbatim>\<open>_question\<close>, and the object is unchanged, so the round is
  still 0. The code defines no \<^verbatim>\<open>PositionNotSetError\<close>. For the Consultant, whose prompt
  module is not among the sources, the module is assumed to have the entry
  \<^verbatim>\<open>opening_argument_request\<close>, which is looked up before the attribute is read.
\<close>

theorem unset_position_raises_AttributeError:
  "(Debater_init key prov mdl nm wl = Inr self \<longrightarrow>
      construct_argument Debater self story transcript = (Inl (AttributeError ''_question''), self)
      \<and> initial_response Debater self = (Inl (AttributeError ''_question''), self)
      \<and> self_current_round self = 0)
   \<and> (Consultant_init consultant key prov mdl nm wl = Inr self
        \<and> new_argument consultant ''opening_argument_request'' \<noteq> None \<longrightarrow>
      construct_argument Consultant self story transcript = (Inl (AttributeError ''_question''), self)
      \<and> initial_response Consultant self = (Inl (AttributeError ''_question''), self)
      \<and> self_current_round self = 0)"
proof (intro conjI impI)
  assume "Debater_init key prov mdl nm wl = Inr self"
  then obtain sys where s: "self = new_expert debater key prov mdl nm wl sys"
    using Debater_init_new by blast
  obtain tpl where t: "new_argument debater ''opening_argument_request'' = Some tpl"
    using debater_opening by blast
  show "construct_argument Debater self story transcript = (Inl (AttributeError ''_question''), self)"
    unfolding s by (rule new_expert_unset(1) [OF t])
  show "initial_response Debater self = (Inl (AttributeError ''_question''), self)"
    unfolding s by (rule new_expert_unset(2))
  show "self_current_round self = 0"
    unfolding s by (rule new_expert_unset(3))
next
  assume a: "Consultant_init consultant key prov mdl nm wl = Inr self
    \<and> new_argument consultant ''opening_argument_request'' \<noteq> None"
  then obtain sys where s: "self = new_expert consultant key prov mdl nm wl sys"
    using Consultant_init_ok by blast
  from a obtain tpl where t: "new_argument consultant ''opening_argument_request'' = Some tpl"
    by auto
  show "construct_argument Consultant self story transcript = (Inl (AttributeError ''_question''), self)"
    unfolding s by (rule new_expert_unset(1) [OF t])
  show "initial_response Consultant self = (Inl (AttributeError ''_question''), self)"
    unfolding s by (rule new_expert_unset(2))
  show "self_current_round self = 0"
    unfolding s by (rule new_expert_unset(3))
qed

theorem unset_position_raises_AttributeError_witness:
  "Debater_init ''test_api_key'' ''openai'' ''test_model'' ''Test Debater'' 100 = Inr fresh_debater
   \<and> construct_argument Debater fresh_debater STORY TRANSCRIPT =
       (Inl (AttributeError ''_question''), fresh_debater)
   \<and> initial_response Debater fresh_debater = (Inl (AttributeError ''_question''), fresh_debater)
   \<and> self_current_round fresh_debater = 0
   \<and> Consultant_init debater ''test_api_key'' ''openai'' ''test_model'' ''Test Consultant'' 100 =
       Inr fresh_consultant
   \<and> new_argument debater ''opening_argument_request'' \<noteq> None
   \<and> construct_argument Consultant fresh_consultant STORY TRANSCRIPT =
       (Inl (AttributeError ''_question''), fresh_consultant)
   \<and> initial_response Consultant fresh_consultant =
       (Inl (AttributeError ''_question''), fresh_consultant)
   \<and> self_current_round fresh_consultant = 0"
proof -
  have k: "new_argument debater ''opening_argument_request'' \<noteq> None"
    using debater_opening by auto
  show ?thesis
    using unset_position_raises_AttributeError
      [where key = "''test_api_key''" and prov = "''openai''" and mdl = "''test_model''"
        and nm = "''Test Debater''" and wl = 100 and self = fresh_debater
        and story = STORY and transcript = TRANSCRIPT and consultant = debater]
      unset_position_raises_AttributeError
      [where key = "''test_api_key''" and prov = "''openai''" and mdl = "''test_model''"
        and nm = "''Test Consultant''" and wl = 100 and self = fresh_consultant
        and story = STORY and transcript = TRANSCRIPT and consultant = debater]
      fresh_debater_init fresh_consultant_init k
    by (simp del: construct_argument.simps initial_response.simps)
qed

text \<open>
  The claim as stated names the exception \<^verbatim>\<open>PositionNotSetError\<close>. On the Debater of the
  tests, fresh from its constructor, both calls raise an exception of class
  \<^verbatim>\<open>AttributeError\<close> instead.
\<close>

theorem unset_position_counterexample:
  "Debater_init ''test_api_key'' ''openai'' ''test_model'' ''Test Debater'' 100 = Inr fresh_debater
   \<and> fst (construct_argument Debater fresh_debater STORY TRANSCRIPT) =
       Inl (AttributeError ''_question'')
   \<and> fst (initial_response Debater fresh_debater) = Inl (AttributeError ''_question'')
   \<and> exc_class (AttributeError ''_question'') \<noteq> ''PositionNotSetError''"
proof -
  obtain sys where s: "fresh_debater =
      new_expert debater ''test_api_key'' ''openai'' ''test_model'' ''Test Debater'' 100 sys"
    using Debater_init_new [OF fresh_debater_init] by blast
  obtain tpl where t: "new_argument debater ''opening_argument_request'' = Some tpl"
    using debater_opening by blast
  show ?thesis
    using fresh_debater_init new_expert_unset(1) [OF t, of Debater] new_expert_unset(2) [of Debater]
    by (simp add: s del: construct_argument.simps initial_response.simps)
qed

text \<open>
  Claim C5. \<^verbatim>\<open>IDebater.initial_position\<close> with the defending map \<^verbatim>\<open>{"A": "X"}\<close> and the
  opposing map \<^verbatim>\<open>{"B": "Y"}\<close> stores answer A = X, answer B = Y, defending letter A and
  opposing letter B; with the roles swapped, defending \<^verbatim>\<open>{"B": "Y"}\<close> and opposing
  \<^verbatim>\<open>{"A": "X"}\<close>, it stores defending letter B and opposing letter A.
\<close>

theorem letter_resolution_examples:
  "self_answer_a (snd (IDebater_initial_position self question
      [''A'' \<mapsto> ''X''] [''B'' \<mapsto> ''Y''] ''Bob'')) = Some (PyStr ''X'')
   \<and> self_answer_b (snd (IDebater_initial_position self question
      [''A'' \<mapsto> ''X''] [''B'' \<mapsto> ''Y''] ''Bob'')) = Some (PyStr ''Y'')
   \<and> self_answer_defending_letter (snd (IDebater_initial_position self question
      [''A'' \<mapsto> ''X''] [''B'' \<mapsto> ''Y''] ''Bob'')) = Some ''A''
   \<and> self_answer_opposing_letter (snd (IDebater_initial_position self question
      [''A'' \<mapsto> ''X''] [''B'' \<mapsto> ''Y''] ''Bob'')) = Some ''B''
   \<and> self_answer_defending_letter (snd (IDebater_initial_position self question
      [''B'' \<mapsto> ''Y''] [''A'' \<mapsto> ''X''] opponent_name)) = Some ''B''
   \<and> self_answer_opposing_letter (snd (IDebater_initial_position self question
      [''B'' \<mapsto> ''Y''] [''A'' \<mapsto> ''X''] opponent_name)) = Some ''A''"
  by (simp add: IDebater_initial_position_def Let_def dict_get_def py_or_def getitem_def)

text \<open>
  Claim C6. When each of the two maps of \<^verbatim>\<open>IDebater.initial_position\<close> holds exactly one
  letter with a non-empty text and the two letters are A and B, then after the call the
  defending and the opposing letter are the letters of the two maps, they are distinct,
  \<^verbatim>\<open>_answer_defending\<close> and \<^verbatim>\<open>_answer_opposing\<close> are the texts of the defending and of
  the opposing map, and \<^verbatim>\<open>_answer_a\<close> and \<^verbatim>\<open>_answer_b\<close> are the texts given for the
  letters A and B.
\<close>

theorem letter_resolution_invariant:
  assumes "answer_defending = [dl \<mapsto> dtext]" and "answer_opposing = [ol \<mapsto> otext]"
    and "dtext \<noteq> []" and "otext \<noteq> []" and "{dl, ol} = {''A'', ''B''}"
  shows "self_answer_defending_letter (snd (IDebater_initial_position self question
            answer_defending answer_opposing opponent_name)) = Some dl
    \<and> self_answer_opposing_letter (snd (IDebater_initial_position self question
            answer_defending answer_opposing opponent_name)) = Some ol
    \<and> dl \<noteq> ol
    \<and> self_answer_defending (snd (IDebater_initial_position self question
            answer_defending answer_opposing opponent_name)) = Some dtext
    \<and> self_answer_opposing (snd (IDebater_initial_position self question
            answer_defending answer_opposing opponent_name)) = Some otext
    \<and> self_answer_a (snd (IDebater_initial_position self question
            answer_defending answer_opposing opponent_name)) =
          Some (dict_get (answer_defending ++ answer_opposing) ''A'')
    \<and> self_answer_b (snd (IDebater_initial_position self question
            answer_defending answer_opposing opponent_name)) =
          Some (dict_get (answer_defending ++ answer_opposing) ''B'')
    \<and> dict_get (answer_defending ++ answer_opposing) ''A'' \<noteq> PyNone
    \<and> dict_get (answer_defending ++ answer_opposing) ''B'' \<noteq> PyNone"
proof -
  from assms(5) have letters: "dl = ''A'' \<and> ol = ''B'' \<or> dl = ''B'' \<and> ol = ''A''"
    by (auto simp: doubleton_eq_iff)
  note after = IDebater_one_pair_each [OF assms(3,4) letters, of self question opponent_name]
  from letters show ?thesis
    unfolding assms(1,2) after
    by (auto simp: dict_get_def map_add_def)
qed

theorem letter_resolution_invariant_witness:
  "self_answer_defending_letter (snd (IDebater_initial_position
      (fixture debater ''Test IDebater'' 0) ''What is the best programming language?''
      [''A'' \<mapsto> ''Python''] [''B'' \<mapsto> ''JavaScript''] ''Opponent'')) = Some ''A''
   \<and> self_answer_opposing_letter (snd (IDebater_initial_position
      (fixture debater ''Test IDebater'' 0) ''What is the best programming language?''
      [''A'' \<mapsto> ''Python''] [''B'' \<mapsto> ''JavaScript''] ''Opponent'')) = Some ''B''
   \<and> self_answer_defending (snd (IDebater_initial_position
      (fixture debater ''Test IDebater'' 0) ''What is the best programming language?''
      [''A'' \<mapsto> ''Python''] [''B'' \<mapsto> ''JavaScript''] ''Opponent'')) = Some ''Python''
   \<and> self_answer_opposing (snd (IDebater_initial_position
      (fixture debater ''Test IDebater'' 0) ''What is the best programming language?''
      [''A'' \<mapsto> ''Python''] [''B'' \<mapsto> ''JavaScript''] ''Opponent'')) = Some ''JavaScript''
   \<and> self_answer_a (snd (IDebater_initial_position
      (fixture debater ''Test IDebater'' 0) ''What is the best programming language?''
      [''A'' \<mapsto> ''Python''] [''B'' \<mapsto> ''JavaScript''] ''Opponent'')) = Some (PyStr ''Python'')
   \<and> self_answer_b (snd (IDebater_initial_position
      (fixture debater ''Test IDebater'' 0) ''What is the best programming language?''
      [''A'' \<mapsto> ''Python''] [''B'' \<mapsto> ''JavaScript''] ''Opponent'')) = Some (PyStr ''JavaScript'')"
  using letter_resolution_invariant [of "[''A'' \<mapsto> ''Python'']" "''A''" "''Python''"
      "[''B'' \<mapsto> ''JavaScript'']" "''B''" "''JavaScript''" "fixture debater ''Test IDebater'' 0"
      "''What is the best programming language?''" "''Opponent''"]
  by (simp add: dict_get_def map_add_def)

text \<open>
  Claim C7. \<^verbatim>\<open>IDebater.initial_position\<close> resolves answer A (and likewise answer B) from
  the defending map first and takes the opposing map's entry only when the defending
  map's entry is missing or empty. When both maps give letter A different non-empty
  texts, the defending map's text is stored.
\<close>

theorem defending_map_first:
  "self_answer_a (snd (IDebater_initial_position self question answer_defending answer_opposing
        opponent_name)) =
     Some (if truthy (dict_get answer_defending ''A'') then dict_get answer_defending ''A''
           else dict_get answer_opposing ''A'')
   \<and> self_answer_b (snd (IDebater_initial_position self question answer_defending answer_opposing
        opponent_name)) =
     Some (if truthy (dict_get answer_defending ''B'') then dict_get answer_defending ''B''
           else dict_get answer_opposing ''B'')
   \<and> (answer_defending ''A'' = Some x \<and> x \<noteq> [] \<and> answer_opposing ''A'' = Some y \<and> y \<noteq> []
        \<and> x \<noteq> y \<longrightarrow>
      self_answer_a (snd (IDebater_initial_position self question answer_defending answer_opposing
        opponent_name)) = Some (PyStr x))
   \<and> (answer_defending ''B'' = Some x \<and> x \<noteq> [] \<and> answer_opposing ''B'' = Some y \<and> y \<noteq> []
        \<and> x \<noteq> y \<longrightarrow>
      self_answer_b (snd (IDebater_initial_position self question answer_defending answer_opposing
        opponent_name)) = Some (PyStr x))"
  unfolding IDebater_answers by (simp add: py_or_def dict_get_def)

theorem defending_map_first_witness:
  "self_answer_a (snd (IDebater_initial_position (fixture debater ''Test IDebater'' 0) ''Q''
      [''A'' \<mapsto> ''X1''] [''A'' \<mapsto> ''X2'', ''B'' \<mapsto> ''Y''] ''Bob'')) = Some (PyStr ''X1'')
   \<and> self_answer_b (snd (IDebater_initial_position (fixture debater ''Test IDebater'' 0) ''Q''
      [''A'' \<mapsto> ''X'', ''B'' \<mapsto> ''Y1''] [''B'' \<mapsto> ''Y2''] ''Bob'')) = Some (PyStr ''Y1'')
   \<and> self_answer_a (snd (IDebater_initial_position (fixture debater ''Test IDebater'' 0) ''Q''
      [''A'' \<mapsto> [], ''B'' \<mapsto> ''Y''] [''A'' \<mapsto> ''X2''] ''Bob'')) = Some (PyStr ''X2'')"
  using defending_map_first [of "fixture debater ''Test IDebater'' 0" "''Q''"
      "[''A'' \<mapsto> ''X1'']" "[''A'' \<mapsto> ''X2'', ''B'' \<mapsto> ''Y'']" "''Bob''" "''X1''" "''X2''"]
    defending_map_first [of "fixture debater ''Test IDebater'' 0" "''Q''"
      "[''A'' \<mapsto> ''X'', ''B'' \<mapsto> ''Y1'']" "[''B'' \<mapsto> ''Y2'']" "''Bob''" "''Y1''" "''Y2''"]
    defending_map_first [of "fixture debater ''Test IDebater'' 0" "''Q''"
      "[''A'' \<mapsto> [], ''B'' \<mapsto> ''Y'']" "[''A'' \<mapsto> ''X2'']" "''Bob''"]
  by (simp add: dict_get_def)

text \<open>
  Claim C9. \<^verbatim>\<open>initial_position\<close> of a Consultant or a Debater stores the question and the
  two answers as given, returns the user-question template rendered with these three
  values, and leaves the round alone. A second call behaves as a first call with its
  arguments: it overwrites the stored position and raises nothing for being the second.
  No choice of the three strings makes the rendering fail: a template that renders for
  one triple renders for every triple, and the user-question template of the debater
  module renders for all strings.
\<close>

theorem initial_position_stores_and_renders:
  "Debater_initial_position self q d opp =
     (substitute (user_question (self_protocol self))
        [(''question'', PyStr q), (''answer_defending'', PyStr d), (''answer_opposing'', PyStr opp)],
      self\<lparr>self_question := Some q, self_answer_defending := Some d,
           self_answer_opposing := Some opp\<rparr>)
   \<and> Consultant_initial_position self q d opp =
     (substitute (user_question (self_protocol self))
        [(''question'', PyStr q), (''answer_defending'', PyStr d), (''answer_opposing'', PyStr opp)],
      self\<lparr>self_question := Some q, self_answer_defending := Some d,
           self_answer_opposing := Some opp\<rparr>)
   \<and> self_current_round (snd (Debater_initial_position self q d opp)) = self_current_round self
   \<and> self_current_round (snd (Consultant_initial_position self q d opp)) = self_current_round self
   \<and> Debater_initial_position (snd (Debater_initial_position self q d opp)) q' d' opp' =
       Debater_initial_position self q' d' opp'
   \<and> Consultant_initial_position (snd (Consultant_initial_position self q d opp)) q' d' opp' =
       Consultant_initial_position self q' d' opp'
   \<and> (succeeded (fst (Debater_initial_position self q d opp)) \<longrightarrow>
       succeeded (fst (Debater_initial_position self q' d' opp')))
   \<and> (succeeded (fst (Consultant_initial_position self q d opp)) \<longrightarrow>
       succeeded (fst (Consultant_initial_position self q' d' opp')))
   \<and> (self_protocol self = debater \<longrightarrow>
       fst (Debater_initial_position self q d opp) =
         Inr (''Here is the question and the two answers:\<newline><question>'' @ q @
              ''</question>\<newline><your_answer>'' @ d @
              ''</your_answer>\<newline><opponent_answer>'' @ opp @
              ''</opponent_answer>\<newline>Please restate your position and the position you are arguing against to confirm you understand.''))"
proof -
  have keys: "succeeded (substitute (user_question (self_protocol self))
        [(''question'', PyStr q), (''answer_defending'', PyStr d), (''answer_opposing'', PyStr opp)]) =
      succeeded (substitute (user_question (self_protocol self))
        [(''question'', PyStr q'), (''answer_defending'', PyStr d'), (''answer_opposing'', PyStr opp')])"
    by (rule substitute_keys) simp
  show ?thesis
    using keys
    by (simp add: Debater_initial_position_def Consultant_initial_position_def Let_def getattr_def
          debater_def debater_user_question_render)
qed

theorem initial_position_stores_and_renders_witness:
  "self_protocol fresh_debater = debater
   \<and> fst (Debater_initial_position fresh_debater ''Q'' ''D'' ''O'') =
       Inr ''Here is the question and the two answers:\<newline><question>Q</question>\<newline><your_answer>D</your_answer>\<newline><opponent_answer>O</opponent_answer>\<newline>Please restate your position and the position you are arguing against to confirm you understand.''
   \<and> self_question (snd (Debater_initial_position fresh_debater ''Q'' ''D'' ''O'')) = Some ''Q''
   \<and> self_answer_defending (snd (Debater_initial_position fresh_debater ''Q'' ''D'' ''O'')) = Some ''D''
   \<and> self_answer_opposing (snd (Debater_initial_position fresh_debater ''Q'' ''D'' ''O'')) = Some ''O''
   \<and> self_current_round (snd (Debater_initial_position fresh_debater ''Q'' ''D'' ''O'')) = 0
   \<and> fst (Debater_initial_position scenario_debater ''Q2'' ''D2'' ''O2'') =
       Inr ''Here is the question and the two answers:\<newline><question>Q2</question>\<newline><your_answer>D2</your_answer>\<newline><opponent_answer>O2</opponent_answer>\<newline>Please restate your position and the position you are arguing against to confirm you understand.''
   \<and> self_question (snd (Debater_initial_position scenario_debater ''Q2'' ''D2'' ''O2'')) = Some ''Q2''
   \<and> self_answer_defending (snd (Debater_initial_position scenario_debater ''Q2'' ''D2'' ''O2'')) =
       Some ''D2''
   \<and> self_answer_opposing (snd (Debater_initial_position scenario_debater ''Q2'' ''D2'' ''O2'')) =
       Some ''O2''
   \<and> succeeded (fst (Consultant_initial_position fresh_consultant ''Q'' ''D'' ''O''))
   \<and> succeeded (fst (Consultant_initial_position fresh_consultant ''Q2'' ''D2'' ''O2''))"
proof -
  obtain sys where s: "fresh_debater =
      new_expert debater ''test_api_key'' ''openai'' ''test_model'' ''Test Debater'' 100 sys"
    using Debater_init_new [OF fresh_debater_init] by blast
  have p: "self_protocol fresh_debater = debater" "self_current_round fresh_debater = 0"
    by (simp_all add: s new_expert_def)
  note first = initial_position_stores_and_renders
    [where self = fresh_debater and q = "''Q''" and d = "''D''" and opp = "''O''"
      and q' = "''Q2''" and d' = "''D2''" and opp' = "''O2''"]
  note again = initial_position_stores_and_renders
    [where self = fresh_debater and q = "''Q2''" and d = "''D2''" and opp = "''O2''"
      and q' = "''Q2''" and d' = "''D2''" and opp' = "''O2''"]
  from first have call1: "Debater_initial_position fresh_debater ''Q'' ''D'' ''O'' =
      (substitute (user_question (self_protocol fresh_debater))
         [(''question'', PyStr ''Q''), (''answer_defending'', PyStr ''D''),
          (''answer_opposing'', PyStr ''O'')],
       fresh_debater\<lparr>self_question := Some ''Q'', self_answer_defending := Some ''D'',
         self_answer_opposing := Some ''O''\<rparr>)"
    by (rule conjunct1)
  from first p(1) have text1: "fst (Debater_initial_position fresh_debater ''Q'' ''D'' ''O'') =
      Inr (''Here is the question and the two answers:\<newline><question>'' @ ''Q'' @
           ''</question>\<newline><your_answer>'' @ ''D'' @
           ''</your_answer>\<newline><opponent_answer>'' @ ''O'' @
           ''</opponent_answer>\<newline>Please restate your position and the position you are arguing against to confirm you understand.'')"
    by blast
  from first have second: "Debater_initial_position scenario_debater ''Q2'' ''D2'' ''O2'' =
      Debater_initial_position fresh_debater ''Q2'' ''D2'' ''O2''"
    unfolding scenario_debater_def by blast
  from again have call2: "Debater_initial_position fresh_debater ''Q2'' ''D2'' ''O2'' =
      (substitute (user_question (self_protocol fresh_debater))
         [(''question'', PyStr ''Q2''), (''answer_defending'', PyStr ''D2''),
          (''answer_opposing'', PyStr ''O2'')],
       fresh_debater\<lparr>self_question := Some ''Q2'', self_answer_defending := Some ''D2'',
         self_answer_opposing := Some ''O2''\<rparr>)"
    by (rule conjunct1)
  from again p(1) have text2: "fst (Debater_initial_position fresh_debater ''Q2'' ''D2'' ''O2'') =
      Inr (''Here is the question and the two answers:\<newline><question>'' @ ''Q2'' @
           ''</question>\<newline><your_answer>'' @ ''D2'' @
           ''</your_answer>\<newline><opponent_answer>'' @ ''O2'' @
           ''</opponent_answer>\<newline>Please restate your position and the position you are arguing against to confirm you understand.'')"
    by blast
  obtain sys' where c: "fresh_consultant =
      new_expert debater ''test_api_key'' ''openai'' ''test_model'' ''Test Consultant'' 100 sys'"
    using Consultant_init_ok [OF fresh_consultant_init] by blast
  have cons1: "succeeded (fst (Consultant_initial_position fresh_consultant ''Q'' ''D'' ''O''))"
    by (simp add: c new_expert_def Consultant_initial_position_def Let_def getattr_def debater_def
          debater_user_question_render)
  with initial_position_stores_and_renders
    [where self = fresh_consultant and q = "''Q''" and d = "''D''" and opp = "''O''"
      and q' = "''Q2''" and d' = "''D2''" and opp' = "''O2''"]
  have cons2: "succeeded (fst (Consultant_initial_position fresh_consultant ''Q2'' ''D2'' ''O2''))"
    by blast
  show ?thesis
    unfolding second using text1 text2 p cons1 cons2
    by (simp add: call1 call2)
qed

end
